theory Spec2Isabelle
  imports Main "HOL-Library.Word"
begin

unbundle bit_operations_syntax

section \<open>Generational Shenandoah heap: evacuation, promotion buffers and balancing\<close>

text \<open>
  A shallow embedding of \<^verbatim>\<open>shenandoahGenerationalHeap.cpp\<close> as the product build
  compiles it on a 64-bit target: \<^verbatim>\<open>assert\<close> and \<^verbatim>\<open>#ifdef ASSERT\<close> blocks are
  absent, \<^verbatim>\<open>size_t\<close> and pointers are 64-bit words (\<open>+\<close>, \<open>-\<close>, \<open>*\<close> wrap,
  comparison and \<^verbatim>\<open>MIN2\<close> are unsigned), \<^verbatim>\<open>uint\<close> is a 32-bit word, a null
  pointer to a heap word or an object is the address \<open>0\<close>, and a null \<^verbatim>\<open>PLAB*\<close> is
  \<open>None\<close>. \<^verbatim>\<open>checked_cast<ssize_t>\<close> of a \<^verbatim>\<open>size_t\<close> keeps the bits, so a region
  balance is a 64-bit word read with \<open>sint\<close>.
\<close>

type_synonym size_t = "64 word"
type_synonym uint = "32 word"
type_synonym addr = "64 word"
type_synonym oop = "64 word"

subsection \<open>Data\<close>

datatype ShenandoahAffiliation = FREE | YOUNG_GENERATION | OLD_GENERATION

text \<open>
  The lock bits of a mark word select one of three readings: marked (the word holds the
  forwarding pointer), displaced (the header proper lives in a lock record or a monitor)
  and unlocked (the word holds the age bits). The age of a displaced header is the age
  stored in the displaced word.
\<close>

datatype markWord = Marked oop | Displaced uint | Unlocked uint

record object =
  obj_size :: size_t
  obj_mark :: markWord

record ShenandoahHeapRegion =
  affiliation :: ShenandoahAffiliation
  region_age :: uint
  region_is_active :: bool
  region_is_humongous :: bool

definition region_is_young :: "ShenandoahHeapRegion \<Rightarrow> bool" where
  "region_is_young r = (affiliation r = YOUNG_GENERATION)"

definition region_is_old :: "ShenandoahHeapRegion \<Rightarrow> bool" where
  "region_is_old r = (affiliation r = OLD_GENERATION)"

text \<open>
  Modelled from the spec: the allocation buffer (class \<^verbatim>\<open>PLAB\<close>, not under src/), a
  thread-local span that is bump-allocated, whose allocation pointer can be rolled back,
  and whose unused tail is padded and counted as waste when it is retired. Addresses
  count heap words.
\<close>

record PLAB =
  plab_bottom :: addr
  plab_top :: addr
  plab_end :: addr
  plab_waste :: size_t

definition words_remaining :: "PLAB \<Rightarrow> size_t" where
  "words_remaining b = plab_end b - plab_top b"

definition plab_allocate :: "size_t \<Rightarrow> PLAB \<Rightarrow> addr \<times> PLAB" where
  "plab_allocate word_sz b =
     (if word_sz \<le> words_remaining b
      then (plab_top b, b\<lparr>plab_top := plab_top b + word_sz\<rparr>)
      else (0, b))"

definition undo_allocation :: "addr \<Rightarrow> size_t \<Rightarrow> PLAB \<Rightarrow> PLAB" where
  "undo_allocation obj word_sz b = b\<lparr>plab_top := obj\<rparr>"

definition plab_retire :: "PLAB \<Rightarrow> PLAB" where
  "plab_retire b =
     b\<lparr>plab_waste := plab_waste b + words_remaining b,
       plab_bottom := 0, plab_top := 0, plab_end := 0\<rparr>"

definition set_buf :: "addr \<Rightarrow> size_t \<Rightarrow> PLAB \<Rightarrow> PLAB" where
  "set_buf buf new_word_sz b =
     b\<lparr>plab_bottom := buf, plab_top := buf, plab_end := buf + new_word_sz\<rparr>"

text \<open>The fields of \<^verbatim>\<open>ShenandoahThreadLocalData\<close> of the current thread that the file uses.\<close>

record thread_data =
  gclab :: "PLAB option"
  plab :: "PLAB option"
  gclab_size :: size_t
  plab_size :: size_t
  plab_retries_enabled :: bool
  allow_plab_promotions :: bool
  plab_promoted :: size_t
  plab_actual_size :: size_t
  is_oom_during_evac :: bool

record ShenandoahOldGeneration =
  og_available :: size_t
  og_free_unaffiliated_regions :: size_t
  og_has_unprocessed_collection_candidates :: bool
  og_unprocessed_collection_candidates_live_memory :: size_t
  og_promotion_potential :: size_t
  og_region_balance :: size_t
  og_evacuation_reserve :: size_t
  og_promoted_reserve :: size_t
  og_parseable :: bool

record ShenandoahYoungGeneration =
  yg_max_capacity :: size_t
  yg_evacuation_reserve :: size_t

datatype ShenandoahAllocRequest =
    For_Shared_GC size_t ShenandoahAffiliation bool
  | For_PLAB size_t size_t

text \<open>
  A call into a collaborator that is not in the file is recorded in the event log, in
  call order, with its arguments. The log stands for the collaborators' own state.
\<close>

datatype event =
    Allocate_Memory ShenandoahAllocRequest
  | Allocate_From_Gclab size_t
  | Handle_Failed_Promotion size_t
  | Handle_Failed_Evacuation
  | Handle_Alloc_Failure_Evac size_t
  | Handle_Out_Of_Memory_During_Evacuation
  | Begin_Evacuation size_t
  | End_Evacuation size_t
  | Relativize_Stack_Chunk oop
  | Handle_Evacuation addr size_t bool
  | Record_Age size_t uint
  | Fill_With_Object addr size_t
  | Unexpend_Promoted size_t
  | Register_Object_Without_Lock addr
  | Zero_To_Words addr size_t
  | Transfer_Pointers_From_Satb
  | Transfer_To_Young size_t
  | Transfer_To_Old size_t
  | Handle_Failed_Transfer
  | Run_Task_Coalesce bool
  | Begin_Preemptible_Coalesce_And_Fill nat
  | Oop_Coalesce_And_Fill nat bool

record heap =
  tld :: thread_data
  objects :: "oop \<Rightarrow> object"
  heap_region_containing :: "oop \<Rightarrow> ShenandoahHeapRegion"
  regions :: "ShenandoahHeapRegion list"
  old_generation :: ShenandoahOldGeneration
  young_generation :: ShenandoahYoungGeneration
  active_generation_is_young :: bool
  is_aging_cycle :: bool
  tenuring_threshold :: uint
  is_concurrent_old_mark_in_progress :: bool
  events :: "event list"

text \<open>
  Flags and constants declared outside the file. The two waste factors are
  \<^verbatim>\<open>double\<close>s: \<open>scale_old_evac_waste n\<close> stands for
  \<^verbatim>\<open>(size_t)(n * ShenandoahOldEvacWaste)\<close> and \<open>scale_promo_evac_waste n\<close> for
  \<^verbatim>\<open>(size_t)(n * ShenandoahPromoEvacWaste)\<close>.
\<close>

record config =
  UseTLAB :: bool
  ZeroTLAB :: bool
  ShenandoahGenerationalCensusAtEvac :: bool
  ShenandoahGenerationalAdaptiveTenuring :: bool
  ShenandoahEvacReserve :: size_t
  ShenandoahOldEvacRatioPercent :: size_t
  ShenandoahMaxEvacLABRatio :: size_t
  scale_old_evac_waste :: "size_t \<Rightarrow> size_t"
  scale_promo_evac_waste :: "size_t \<Rightarrow> size_t"
  region_size_bytes :: size_t
  max_tlab_size_words :: size_t
  PLAB_min_size :: size_t
  card_size_in_words :: size_t
  HeapWordSize :: size_t

datatype fault = Division_By_Zero | Should_Not_Reach_Here | Null_Dereference

text \<open>
  Collaborators whose code is not in the file and whose answer the file branches on.
  \<^item> \<open>allocate_memory req h\<close>: the shared allocator; it answers with the address (or
    null), with \<^verbatim>\<open>req.actual_size()\<close>, and with the thread-local data as it leaves
    them (the source notes that it resets the promotion counters of the thread and may
    prohibit further promotions).
  \<^item> \<open>allocate_from_gclab size h\<close>: the young evacuation buffer of the thread.
  \<^item> \<open>is_in_old\<close>, and the two transfers of the generation sizer.
  Each may depend on the whole state, the event log included, so that two calls with the
  same arguments may answer differently.
\<close>

record collab =
  allocate_memory :: "ShenandoahAllocRequest \<Rightarrow> heap \<Rightarrow> (addr \<times> size_t) \<times> thread_data"
  allocate_from_gclab :: "size_t \<Rightarrow> heap \<Rightarrow> addr \<times> thread_data"
  is_in_old :: "heap \<Rightarrow> addr \<Rightarrow> bool"
  transfer_to_young :: "size_t \<Rightarrow> heap \<Rightarrow> bool"
  transfer_to_old :: "size_t \<Rightarrow> heap \<Rightarrow> bool"

definition log_event :: "event \<Rightarrow> heap \<Rightarrow> heap" where
  "log_event e h = h\<lparr>events := events h @ [e]\<rparr>"

definition allocate_memory_call ::
  "collab \<Rightarrow> ShenandoahAllocRequest \<Rightarrow> heap \<Rightarrow> (addr \<times> size_t) \<times> heap" where
  "allocate_memory_call c req h =
     (case allocate_memory c req h of
        (res, t) \<Rightarrow> (res, log_event (Allocate_Memory req) (h\<lparr>tld := t\<rparr>)))"

definition allocate_from_gclab_call :: "collab \<Rightarrow> size_t \<Rightarrow> heap \<Rightarrow> addr \<times> heap" where
  "allocate_from_gclab_call c sz h =
     (case allocate_from_gclab c sz h of
        (res, t) \<Rightarrow> (res, log_event (Allocate_From_Gclab sz) (h\<lparr>tld := t\<rparr>)))"

text \<open>The setters of \<^verbatim>\<open>ShenandoahThreadLocalData\<close>.\<close>

definition set_gclab :: "PLAB option \<Rightarrow> heap \<Rightarrow> heap" where
  "set_gclab b h = h\<lparr>tld := (tld h)\<lparr>gclab := b\<rparr>\<rparr>"

definition set_plab :: "PLAB option \<Rightarrow> heap \<Rightarrow> heap" where
  "set_plab b h = h\<lparr>tld := (tld h)\<lparr>plab := b\<rparr>\<rparr>"

definition set_gclab_size :: "size_t \<Rightarrow> heap \<Rightarrow> heap" where
  "set_gclab_size n h = h\<lparr>tld := (tld h)\<lparr>gclab_size := n\<rparr>\<rparr>"

definition set_plab_size :: "size_t \<Rightarrow> heap \<Rightarrow> heap" where
  "set_plab_size n h = h\<lparr>tld := (tld h)\<lparr>plab_size := n\<rparr>\<rparr>"

definition enable_plab_retries :: "heap \<Rightarrow> heap" where
  "enable_plab_retries h = h\<lparr>tld := (tld h)\<lparr>plab_retries_enabled := True\<rparr>\<rparr>"

definition disable_plab_retries :: "heap \<Rightarrow> heap" where
  "disable_plab_retries h = h\<lparr>tld := (tld h)\<lparr>plab_retries_enabled := False\<rparr>\<rparr>"

definition disable_plab_promotions :: "heap \<Rightarrow> heap" where
  "disable_plab_promotions h = h\<lparr>tld := (tld h)\<lparr>allow_plab_promotions := False\<rparr>\<rparr>"

definition reset_plab_promoted :: "heap \<Rightarrow> heap" where
  "reset_plab_promoted h = h\<lparr>tld := (tld h)\<lparr>plab_promoted := 0\<rparr>\<rparr>"

definition add_to_plab_promoted :: "size_t \<Rightarrow> heap \<Rightarrow> heap" where
  "add_to_plab_promoted n h = h\<lparr>tld := (tld h)\<lparr>plab_promoted := plab_promoted (tld h) + n\<rparr>\<rparr>"

definition subtract_from_plab_promoted :: "size_t \<Rightarrow> heap \<Rightarrow> heap" where
  "subtract_from_plab_promoted n h =
     h\<lparr>tld := (tld h)\<lparr>plab_promoted := plab_promoted (tld h) - n\<rparr>\<rparr>"

definition set_plab_actual_size :: "size_t \<Rightarrow> heap \<Rightarrow> heap" where
  "set_plab_actual_size n h = h\<lparr>tld := (tld h)\<lparr>plab_actual_size := n\<rparr>\<rparr>"

subsection \<open>Buffer size limits\<close>

text \<open>\<^verbatim>\<open>align_up\<close> and \<^verbatim>\<open>align_down\<close> for an alignment that is a power of two.\<close>

definition align_up :: "size_t \<Rightarrow> size_t \<Rightarrow> size_t" where
  "align_up x a = (x + (a - 1)) AND NOT (a - 1)"

definition align_down :: "size_t \<Rightarrow> size_t \<Rightarrow> size_t" where
  "align_down x a = x AND NOT (a - 1)"

definition calculate_min_plab :: "config \<Rightarrow> size_t" where
  "calculate_min_plab cfg = align_up (PLAB_min_size cfg) (card_size_in_words cfg)"

definition calculate_max_plab :: "config \<Rightarrow> size_t" where
  "calculate_max_plab cfg =
     (if ShenandoahMaxEvacLABRatio cfg > 0
      then align_down (min (max_tlab_size_words cfg)
                           (PLAB_min_size cfg * ShenandoahMaxEvacLABRatio cfg))
                      (card_size_in_words cfg)
      else align_down (max_tlab_size_words cfg) (card_size_in_words cfg))"

definition plab_min_size :: "config \<Rightarrow> size_t" where
  "plab_min_size cfg = calculate_min_plab cfg"

definition plab_max_size :: "config \<Rightarrow> size_t" where
  "plab_max_size cfg = calculate_max_plab cfg"

subsection \<open>Generation balancer\<close>

definition set_region_balance :: "size_t \<Rightarrow> heap \<Rightarrow> heap" where
  "set_region_balance b h = h\<lparr>old_generation := (old_generation h)\<lparr>og_region_balance := b\<rparr>\<rparr>"

text \<open>
  \<^verbatim>\<open>compute_old_generation_balance\<close>, up to the constant \<^verbatim>\<open>old_reserve\<close>: the
  memory the old generation would ideally reserve for mixed evacuations and promotions.
  The division by \<open>100 - ShenandoahOldEvacRatioPercent\<close> is guarded by the source.
\<close>

definition old_reserve :: "config \<Rightarrow> size_t \<Rightarrow> heap \<Rightarrow> size_t" where
  "old_reserve cfg old_xfer_limit h =
     (let old_gen = old_generation h;
          old_available = og_available old_gen;
          young_reserve =
            (yg_max_capacity (young_generation h) * ShenandoahEvacReserve cfg) div 100;
          bound_on_old_reserve = old_available + old_xfer_limit + young_reserve;
          max_old_reserve =
            (if ShenandoahOldEvacRatioPercent cfg = 100 then bound_on_old_reserve
             else min ((young_reserve * ShenandoahOldEvacRatioPercent cfg)
                         div (100 - ShenandoahOldEvacRatioPercent cfg))
                      bound_on_old_reserve);
          reserve_for_mixed =
            (if og_has_unprocessed_collection_candidates old_gen then
               (let max_evac_need =
                      scale_old_evac_waste cfg
                        (og_unprocessed_collection_candidates_live_memory old_gen);
                    old_fragmented_available =
                      old_available
                        - og_free_unaffiliated_regions old_gen * region_size_bytes cfg;
                    wanted = max_evac_need + old_fragmented_available
                in if wanted > max_old_reserve then max_old_reserve else wanted)
             else 0);
          promo_load = og_promotion_potential old_gen;
          reserve_for_promo =
            (if promo_load > 0
             then min (scale_promo_evac_waste cfg promo_load)
                      (max_old_reserve - reserve_for_mixed)
             else 0)
      in reserve_for_mixed + reserve_for_promo)"

text \<open>
  The rest of \<^verbatim>\<open>compute_old_generation_balance\<close>: surplus or deficit. The two
  divisions by the region size trap when it is zero.
\<close>

definition compute_old_generation_balance ::
  "config \<Rightarrow> size_t \<Rightarrow> size_t \<Rightarrow> heap \<Rightarrow> fault + heap" where
  "compute_old_generation_balance cfg old_xfer_limit old_cset_regions h =
     (let region_size = region_size_bytes cfg;
          reserve = old_reserve cfg old_xfer_limit h;
          max_old_available = og_available (old_generation h) + old_cset_regions * region_size
      in if region_size = 0 then Inl Division_By_Zero
         else if max_old_available \<ge> reserve then
           (let old_surplus = (max_old_available - reserve) div region_size;
                unaffiliated_old_regions =
                  og_free_unaffiliated_regions (old_generation h) + old_cset_regions;
                old_region_surplus = min old_surplus unaffiliated_old_regions
            in Inr (set_region_balance old_region_surplus h))
         else
           (let old_need = (reserve - max_old_available + region_size - 1) div region_size;
                max_old_region_xfer = old_xfer_limit div region_size;
                old_region_deficit = min old_need max_old_region_xfer
            in Inr (set_region_balance (0 - old_region_deficit) h)))"

subsection \<open>Allocation buffer manager\<close>

text \<open>
  \<^verbatim>\<open>retire_plab(plab, thread)\<close>. The buffer is passed and returned by value; the
  caller stores it back where the pointer points. \<^verbatim>\<open>unexpend_promoted\<close> belongs to
  the old generation and is logged.
\<close>

definition retire_plab :: "collab \<Rightarrow> PLAB \<Rightarrow> heap \<Rightarrow> PLAB \<times> heap" where
  "retire_plab c b h =
     (let not_promoted = plab_actual_size (tld h) - plab_promoted (tld h);
          h1 = reset_plab_promoted h;
          h2 = set_plab_actual_size 0 h1;
          h3 = (if not_promoted > 0 then log_event (Unexpend_Promoted not_promoted) h2 else h2);
          original_waste = plab_waste b;
          top = plab_top b;
          b1 = plab_retire b
      in if top \<noteq> 0 \<and> plab_waste b1 > original_waste \<and> is_in_old c h3 top
         then (b1, log_event (Register_Object_Without_Lock top) h3)
         else (b1, h3))"

definition allocate_new_plab ::
  "collab \<Rightarrow> size_t \<Rightarrow> size_t \<Rightarrow> heap \<Rightarrow> (addr \<times> size_t) \<times> heap" where
  "allocate_new_plab c min_size word_size h =
     (case allocate_memory_call c (For_PLAB min_size word_size) h of
        ((res, req_actual_size), h1) \<Rightarrow>
          if res \<noteq> 0 then ((res, req_actual_size), h1) else ((res, 0), h1))"

text \<open>
  The branch of \<^verbatim>\<open>allocate_from_plab_slow\<close> that retires the current buffer \<open>b\<close> and
  asks for a new one. After the allocator has run, \<^verbatim>\<open>plab->set_buf\<close> and
  \<^verbatim>\<open>plab->allocate\<close> act on the buffer of the thread as the allocator left it.
\<close>

definition replace_plab ::
  "collab \<Rightarrow> config \<Rightarrow> size_t \<Rightarrow> bool \<Rightarrow> size_t \<Rightarrow> size_t \<Rightarrow> PLAB \<Rightarrow> heap
     \<Rightarrow> fault + (addr \<times> heap)" where
  "replace_plab c cfg sz is_promotion min_size cur_size b h =
     (case retire_plab c b h of
        (b1, h1) \<Rightarrow>
          (case allocate_new_plab c min_size cur_size (set_plab (Some b1) h1) of
             ((plab_buf, actual_size), h2) \<Rightarrow>
               if plab_buf = 0 then
                 (if min_size = plab_min_size cfg
                  then Inr (0, disable_plab_promotions h2)
                  else Inr (0, h2))
               else
                 (let h3 = enable_plab_retries h2;
                      h4 = (if ZeroTLAB cfg
                            then log_event (Zero_To_Words plab_buf actual_size) h3 else h3)
                  in case plab (tld h4) of
                       None \<Rightarrow> Inl Null_Dereference
                     | Some b2 \<Rightarrow>
                         (let b3 = set_buf plab_buf actual_size b2;
                              h5 = set_plab (Some b3) h4
                          in if is_promotion \<and> \<not> allow_plab_promotions (tld h5)
                             then Inr (0, h5)
                             else (case plab_allocate sz b3 of
                                     (obj, b4) \<Rightarrow> Inr (obj, set_plab (Some b4) h5))))))"

definition allocate_from_plab_slow ::
  "collab \<Rightarrow> config \<Rightarrow> size_t \<Rightarrow> bool \<Rightarrow> heap \<Rightarrow> fault + (addr \<times> heap)" where
  "allocate_from_plab_slow c cfg sz is_promotion h =
     (let min_size = (if sz > plab_min_size cfg
                      then align_up sz (card_size_in_words cfg) else plab_min_size cfg);
          cur_size = (if plab_size (tld h) = 0 then plab_min_size cfg else plab_size (tld h));
          future_size = min (cur_size * 2) (plab_max_size cfg);
          h1 = set_plab_size future_size h
      in if cur_size < sz then Inr (0, h1)
         else (case plab (tld h1) of
                 None \<Rightarrow> Inl Null_Dereference
               | Some b \<Rightarrow>
                   if words_remaining b < plab_min_size cfg
                   then replace_plab c cfg sz is_promotion min_size cur_size b h1
                   else Inr (0, h1)))"

definition allocate_from_plab ::
  "collab \<Rightarrow> config \<Rightarrow> size_t \<Rightarrow> bool \<Rightarrow> heap \<Rightarrow> fault + (addr \<times> heap)" where
  "allocate_from_plab c cfg sz is_promotion h =
     (case plab (tld h) of
        None \<Rightarrow> Inr (0, h)
      | Some b \<Rightarrow>
          if is_promotion \<and> \<not> allow_plab_promotions (tld h) then Inr (0, h)
          else
            (case plab_allocate sz b of
               (obj, b1) \<Rightarrow>
                 (case (if obj = 0 \<and> words_remaining b1 < plab_min_size cfg
                        then allocate_from_plab_slow c cfg sz is_promotion (set_plab (Some b1) h)
                        else Inr (obj, set_plab (Some b1) h)) of
                    Inl f \<Rightarrow> Inl f
                  | Inr (obj1, h1) \<Rightarrow>
                      if obj1 = 0 then Inr (0, h1)
                      else if is_promotion
                      then Inr (obj1, add_to_plab_promoted (sz * HeapWordSize cfg) h1)
                      else Inr (obj1, h1))))"

subsection \<open>Evacuation engine\<close>

text \<open>
  Modelled from the spec: \<^verbatim>\<open>ShenandoahBarrierSet::resolve_forwarded\<close> and
  \<^verbatim>\<open>ShenandoahForwarding::try_update_forwardee\<close> (not under src/). The forwarding
  slot of an object is its mark word. The install is one atomic compare-and-swap on that
  slot: it stores the copy when no copy is installed yet, and it answers with the copy
  that is installed afterwards.
\<close>

definition resolve_forwarded :: "oop \<Rightarrow> heap \<Rightarrow> oop" where
  "resolve_forwarded p h = (case obj_mark (objects h p) of Marked f \<Rightarrow> f | _ \<Rightarrow> p)"

definition try_update_forwardee :: "oop \<Rightarrow> oop \<Rightarrow> heap \<Rightarrow> oop \<times> heap" where
  "try_update_forwardee p update h =
     (case obj_mark (objects h p) of
        Marked f \<Rightarrow> (f, h)
      | _ \<Rightarrow> (update, h\<lparr>objects := (objects h)(p := (objects h p)\<lparr>obj_mark := Marked update\<rparr>)\<rparr>))"

text \<open>
  Modelled from the spec: \<^verbatim>\<open>ShenandoahHeap::increase_object_age\<close> and
  \<^verbatim>\<open>ShenandoahHeap::get_object_age\<close> (not under src/). The spec has the copy stamped
  with the age that is passed; a word that holds a forwarding pointer has no age bits.
\<close>

definition mark_set_age :: "uint \<Rightarrow> markWord \<Rightarrow> markWord" where
  "mark_set_age a m = (case m of Marked f \<Rightarrow> Marked f | Displaced _ \<Rightarrow> Displaced a | Unlocked _ \<Rightarrow> Unlocked a)"

definition mark_age :: "markWord \<Rightarrow> uint" where
  "mark_age m = (case m of Marked f \<Rightarrow> 0 | Displaced a \<Rightarrow> a | Unlocked a \<Rightarrow> a)"

definition increase_object_age :: "oop \<Rightarrow> uint \<Rightarrow> heap \<Rightarrow> heap" where
  "increase_object_age obj additional_age h =
     h\<lparr>objects := (objects h)
          (obj := (objects h obj)\<lparr>obj_mark := mark_set_age additional_age (obj_mark (objects h obj))\<rparr>)\<rparr>"

definition get_object_age :: "oop \<Rightarrow> heap \<Rightarrow> uint" where
  "get_object_age obj h = mark_age (obj_mark (objects h obj))"

text \<open>\<^verbatim>\<open>Copy::aligned_disjoint_words\<close>: the copy is the object, header included.\<close>

definition copy_object :: "oop \<Rightarrow> addr \<Rightarrow> heap \<Rightarrow> heap" where
  "copy_object p copy h = h\<lparr>objects := (objects h)(copy := objects h p)\<rparr>"

text \<open>\<^verbatim>\<open>try_evacuate_object\<close>, case \<^verbatim>\<open>YOUNG_GENERATION\<close> of the switch.\<close>

definition evac_allocate_young :: "collab \<Rightarrow> config \<Rightarrow> size_t \<Rightarrow> heap \<Rightarrow> addr \<times> heap" where
  "evac_allocate_young c cfg sz h =
     (case allocate_from_gclab_call c sz h of
        (copy, h1) \<Rightarrow>
          if copy = 0 \<and> sz < gclab_size (tld h1)
          then allocate_from_gclab_call c sz (set_gclab_size (PLAB_min_size cfg) h1)
          else (copy, h1))"

text \<open>
  Case \<^verbatim>\<open>OLD_GENERATION\<close> of the switch; the second component is \<^verbatim>\<open>has_plab\<close>.
  The pointer \<^verbatim>\<open>plab\<close> is read before the first allocation and dereferenced after it.
\<close>

definition evac_allocate_old ::
  "collab \<Rightarrow> config \<Rightarrow> size_t \<Rightarrow> bool \<Rightarrow> heap \<Rightarrow> fault + (addr \<times> bool \<times> heap)" where
  "evac_allocate_old c cfg sz is_promotion h =
     (let has_plab = (plab (tld h) \<noteq> None)
      in case allocate_from_plab c cfg sz is_promotion h of
           Inl f \<Rightarrow> Inl f
         | Inr (copy, h1) \<Rightarrow>
             if copy = 0 \<and> sz < plab_size (tld h1) \<and> plab_retries_enabled (tld h1) then
               (case plab (tld h1) of
                  None \<Rightarrow> Inl Null_Dereference
                | Some b \<Rightarrow>
                    if words_remaining b < plab_min_size cfg then
                      (case allocate_from_plab c cfg sz is_promotion
                              (set_plab_size (plab_min_size cfg) h1) of
                         Inl f \<Rightarrow> Inl f
                       | Inr (copy2, h2) \<Rightarrow>
                           if copy2 = 0 then Inr (copy2, has_plab, disable_plab_retries h2)
                           else Inr (copy2, has_plab, h2))
                    else Inr (copy, has_plab, h1))
             else Inr (copy, has_plab, h1))"

text \<open>The block under \<^verbatim>\<open>if (UseTLAB)\<close>: the copy (or null), \<^verbatim>\<open>has_plab\<close>, the state.\<close>

definition evac_lab_alloc ::
  "collab \<Rightarrow> config \<Rightarrow> size_t \<Rightarrow> ShenandoahAffiliation \<Rightarrow> bool \<Rightarrow> heap
     \<Rightarrow> fault + (addr \<times> bool \<times> heap)" where
  "evac_lab_alloc c cfg sz target_gen is_promotion h =
     (if UseTLAB cfg then
        (case target_gen of
           YOUNG_GENERATION \<Rightarrow>
             (case evac_allocate_young c cfg sz h of (copy, h1) \<Rightarrow> Inr (copy, False, h1))
         | OLD_GENERATION \<Rightarrow> evac_allocate_old c cfg sz is_promotion h
         | FREE \<Rightarrow> Inl Should_Not_Reach_Here)
      else Inr (0, False, h))"

text \<open>
  The first \<^verbatim>\<open>if (copy == nullptr)\<close>: the copy, \<^verbatim>\<open>alloc_from_lab\<close>, the state.
\<close>

definition evac_shared_alloc ::
  "collab \<Rightarrow> config \<Rightarrow> size_t \<Rightarrow> ShenandoahAffiliation \<Rightarrow> bool \<Rightarrow> bool \<Rightarrow> addr \<Rightarrow> heap
     \<Rightarrow> addr \<times> bool \<times> heap" where
  "evac_shared_alloc c cfg sz target_gen is_promotion has_plab copy h =
     (if copy = 0 then
        (if \<not> is_promotion \<or> \<not> has_plab \<or> sz > PLAB_min_size cfg then
           (case allocate_memory_call c (For_Shared_GC sz target_gen is_promotion) h of
              ((copy1, req_actual_size), h1) \<Rightarrow> (copy1, False, h1))
         else (copy, True, h))
      else (copy, True, h))"

text \<open>The second \<^verbatim>\<open>if (copy == nullptr)\<close>: no copy could be allocated.\<close>

definition evac_out_of_memory :: "oop \<Rightarrow> size_t \<Rightarrow> heap \<Rightarrow> oop \<times> heap" where
  "evac_out_of_memory p sz h =
     (let h1 = log_event (Handle_Alloc_Failure_Evac sz) h;
          h2 = log_event Handle_Out_Of_Memory_During_Evacuation h1
      in (resolve_forwarded p h2, h2))"

definition evac_alloc_failed ::
  "oop \<Rightarrow> size_t \<Rightarrow> ShenandoahAffiliation \<Rightarrow> ShenandoahHeapRegion \<Rightarrow> heap \<Rightarrow> oop \<times> heap" where
  "evac_alloc_failed p sz target_gen from_region h =
     (if target_gen = OLD_GENERATION then
        (if region_is_young from_region
         then (0, log_event (Handle_Failed_Promotion sz) h)
         else evac_out_of_memory p sz (log_event Handle_Failed_Evacuation h))
      else evac_out_of_memory p sz h)"

text \<open>
  The loser of the forwarding race deals with its own copy: a copy from a buffer is
  rolled back, a copy from the shared allocator is overwritten with a filler object.
\<close>

definition evac_lost_race ::
  "config \<Rightarrow> addr \<Rightarrow> size_t \<Rightarrow> ShenandoahAffiliation \<Rightarrow> bool \<Rightarrow> bool \<Rightarrow> oop \<Rightarrow> heap
     \<Rightarrow> fault + (oop \<times> heap)" where
  "evac_lost_race cfg copy sz target_gen is_promotion alloc_from_lab result h =
     (if alloc_from_lab then
        (case target_gen of
           YOUNG_GENERATION \<Rightarrow>
             (case gclab (tld h) of
                None \<Rightarrow> Inl Null_Dereference
              | Some g \<Rightarrow> Inr (result, set_gclab (Some (undo_allocation copy sz g)) h))
         | OLD_GENERATION \<Rightarrow>
             (case plab (tld h) of
                None \<Rightarrow> Inl Null_Dereference
              | Some b \<Rightarrow>
                  (let h1 = set_plab (Some (undo_allocation copy sz b)) h
                   in if is_promotion
                      then Inr (result, subtract_from_plab_promoted (sz * HeapWordSize cfg) h1)
                      else Inr (result, h1)))
         | FREE \<Rightarrow> Inl Should_Not_Reach_Here)
      else Inr (result, log_event (Fill_With_Object copy sz) h))"

text \<open>
  From \<^verbatim>\<open>// Copy the object:\<close> to \<^verbatim>\<open>relativize_stack_chunk\<close>: the copy is
  written, and stamped with an age when it stays young in an aging cycle.
\<close>

definition evac_copy ::
  "config \<Rightarrow> oop \<Rightarrow> addr \<Rightarrow> size_t \<Rightarrow> ShenandoahAffiliation \<Rightarrow> ShenandoahHeapRegion
     \<Rightarrow> heap \<Rightarrow> heap" where
  "evac_copy cfg p copy sz target_gen from_region h =
     (let h1 = log_event (Begin_Evacuation (sz * HeapWordSize cfg)) h;
          h2 = copy_object p copy h1;
          copy_val = copy;
          h3 = (if target_gen = YOUNG_GENERATION \<and> is_aging_cycle h2
                then increase_object_age copy_val (region_age from_region + 1) h2 else h2)
      in log_event (Relativize_Stack_Chunk copy_val) h3)"

text \<open>
  From \<^verbatim>\<open>try_update_forwardee\<close> to the end of \<^verbatim>\<open>try_evacuate_object\<close>: the
  forwarding pointer is installed, or the race is lost.
\<close>

definition evac_install ::
  "config \<Rightarrow> oop \<Rightarrow> addr \<Rightarrow> size_t \<Rightarrow> ShenandoahAffiliation \<Rightarrow> ShenandoahHeapRegion
     \<Rightarrow> bool \<Rightarrow> bool \<Rightarrow> heap \<Rightarrow> fault + (oop \<times> heap)" where
  "evac_install cfg p copy sz target_gen from_region is_promotion alloc_from_lab h =
     (let copy_val = copy
      in case try_update_forwardee p copy_val
                (evac_copy cfg p copy sz target_gen from_region h) of
           (result, h5) \<Rightarrow>
             if result = copy_val then
               (let h6 = log_event (End_Evacuation (sz * HeapWordSize cfg)) h5
                in if target_gen = OLD_GENERATION
                   then Inr (copy_val,
                             log_event (Handle_Evacuation copy sz (region_is_young from_region)) h6)
                   else if ShenandoahGenerationalCensusAtEvac cfg
                           \<or> \<not> ShenandoahGenerationalAdaptiveTenuring cfg
                   then Inr (copy_val,
                             log_event (Record_Age (sz * HeapWordSize cfg)
                                          (get_object_age copy_val h6)) h6)
                   else Inr (copy_val, h6))
             else evac_lost_race cfg copy sz target_gen is_promotion alloc_from_lab result h5)"

definition try_evacuate_object ::
  "collab \<Rightarrow> config \<Rightarrow> oop \<Rightarrow> ShenandoahHeapRegion \<Rightarrow> ShenandoahAffiliation \<Rightarrow> heap
     \<Rightarrow> fault + (oop \<times> heap)" where
  "try_evacuate_object c cfg p from_region target_gen h =
     (let sz = obj_size (objects h p);
          is_promotion = (target_gen = OLD_GENERATION \<and> region_is_young from_region)
      in case evac_lab_alloc c cfg sz target_gen is_promotion h of
           Inl f \<Rightarrow> Inl f
         | Inr (copy, has_plab, h1) \<Rightarrow>
             (case evac_shared_alloc c cfg sz target_gen is_promotion has_plab copy h1 of
                (copy1, alloc_from_lab, h2) \<Rightarrow>
                  if copy1 = 0 then Inr (evac_alloc_failed p sz target_gen from_region h2)
                  else evac_install cfg p copy1 sz target_gen from_region is_promotion
                         alloc_from_lab h2))"


subsection \<open>Cycle completion\<close>

record TransferResult =
  success :: bool
  region_count :: size_t
  region_destination :: string

definition balance_generations :: "collab \<Rightarrow> heap \<Rightarrow> TransferResult \<times> heap" where
  "balance_generations c h =
     (let old_region_balance = og_region_balance (old_generation h);
          h1 = set_region_balance 0 h
      in if 0 < sint old_region_balance then
           (let old_region_surplus = old_region_balance;
                ok = transfer_to_young c old_region_surplus h1
            in (\<lparr>success = ok, region_count = old_region_surplus,
                  region_destination = ''young''\<rparr>,
                log_event (Transfer_To_Young old_region_surplus) h1))
         else if sint old_region_balance < 0 then
           (let old_region_deficit = - old_region_balance;
                ok = transfer_to_old c old_region_deficit h1;
                h2 = log_event (Transfer_To_Old old_region_deficit) h1
            in (\<lparr>success = ok, region_count = old_region_deficit,
                  region_destination = ''old''\<rparr>,
                if \<not> ok then log_event Handle_Failed_Transfer h2 else h2))
         else (\<lparr>success = True, region_count = 0, region_destination = ''none''\<rparr>, h1))"

definition reset_generation_reserves :: "heap \<Rightarrow> heap" where
  "reset_generation_reserves h =
     h\<lparr>young_generation := (young_generation h)\<lparr>yg_evacuation_reserve := 0\<rparr>,
       old_generation := (old_generation h)\<lparr>og_evacuation_reserve := 0, og_promoted_reserve := 0\<rparr>\<rparr>"

text \<open>
  The task of \<^verbatim>\<open>coalesce_and_fill_old_regions\<close>: the workers share one region
  iterator, so every region is visited once; the regions are taken in index order.
\<close>

fun coalesce_work :: "ShenandoahHeapRegion list \<Rightarrow> nat \<Rightarrow> heap \<Rightarrow> heap" where
  "coalesce_work [] i h = h"
| "coalesce_work (region # rest) i h =
     (if region_is_old region \<and> region_is_active region \<and> \<not> region_is_humongous region
      then coalesce_work rest (Suc i)
             (log_event (Oop_Coalesce_And_Fill i False)
                (log_event (Begin_Preemptible_Coalesce_And_Fill i) h))
      else coalesce_work rest (Suc i) h)"

definition set_parseable :: "bool \<Rightarrow> heap \<Rightarrow> heap" where
  "set_parseable b h = h\<lparr>old_generation := (old_generation h)\<lparr>og_parseable := b\<rparr>\<rparr>"

definition coalesce_and_fill_old_regions :: "bool \<Rightarrow> heap \<Rightarrow> heap" where
  "coalesce_and_fill_old_regions concurrent h =
     set_parseable True (coalesce_work (regions h) 0 (log_event (Run_Task_Coalesce concurrent) h))"

definition entry_global_coalesce_and_fill :: "heap \<Rightarrow> heap" where
  "entry_global_coalesce_and_fill h = coalesce_and_fill_old_regions True h"

definition complete_degenerated_cycle :: "collab \<Rightarrow> heap \<Rightarrow> heap" where
  "complete_degenerated_cycle c h =
     (let h1 = (if is_concurrent_old_mark_in_progress h
                then log_event Transfer_Pointers_From_Satb h else h);
          h2 = reset_generation_reserves (snd (balance_generations c h1))
      in if \<not> og_parseable (old_generation h2)
         then coalesce_and_fill_old_regions False h2 else h2)"

definition complete_concurrent_cycle :: "collab \<Rightarrow> heap \<Rightarrow> heap" where
  "complete_concurrent_cycle c h =
     (let h1 = (if \<not> og_parseable (old_generation h)
                then entry_global_coalesce_and_fill h else h)
      in reset_generation_reserves (snd (balance_generations c h1)))"

text \<open>
  An assumption on the shared allocator: it leaves the preferred buffer size of the thread
  as it is.
\<close>

definition keeps_plab_size :: "collab \<Rightarrow> bool" where
  "keeps_plab_size c = (\<forall>req s. plab_size (snd (allocate_memory c req s)) = plab_size (tld s))"

text \<open>
  An assumption on the shared allocator: it does not allow promotions from the buffer
  again once they are off.
\<close>

definition never_enables_promotions :: "collab \<Rightarrow> bool" where
  "never_enables_promotions c =
     (\<forall>req s. \<not> allow_plab_promotions (tld s)
        \<longrightarrow> \<not> allow_plab_promotions (snd (allocate_memory c req s)))"

text \<open>
  Later allocations of the thread from its promotion buffer, one call of
  \<^verbatim>\<open>allocate_from_plab\<close> for each pair of a size and the promotion flag, in order; the
  answers are collected.
\<close>

fun later_allocations ::
  "collab \<Rightarrow> config \<Rightarrow> (size_t \<times> bool) list \<Rightarrow> heap \<Rightarrow> fault + (addr list \<times> heap)" where
  "later_allocations c cfg [] h = Inr ([], h)"
| "later_allocations c cfg ((sz, is_promotion) # calls) h =
     (case allocate_from_plab c cfg sz is_promotion h of
        Inl f \<Rightarrow> Inl f
      | Inr (obj, h1) \<Rightarrow>
          (case later_allocations c cfg calls h1 of
             Inl f \<Rightarrow> Inl f
           | Inr (objs, h2) \<Rightarrow> Inr (obj # objs, h2)))"

text \<open>
  Several threads evacuate the same object. A thread is its thread-local data; the heap,
  the forwarding slot of the object included, is shared. The only shared location that
  \<^verbatim>\<open>try_evacuate_object\<close> writes is the forwarding slot, by the one compare-and-swap,
  so the calls are taken in the order in which their compare-and-swaps take effect. Each
  answer is paired with the thread-local data the thread is left with.
\<close>

fun evacuate_by_threads ::
  "collab \<Rightarrow> config \<Rightarrow> oop \<Rightarrow> ShenandoahHeapRegion \<Rightarrow> ShenandoahAffiliation
     \<Rightarrow> thread_data list \<Rightarrow> heap \<Rightarrow> fault + ((oop \<times> thread_data) list \<times> heap)" where
  "evacuate_by_threads c cfg p from_region target_gen [] h = Inr ([], h)"
| "evacuate_by_threads c cfg p from_region target_gen (t # ts) h =
     (case try_evacuate_object c cfg p from_region target_gen (h\<lparr>tld := t\<rparr>) of
        Inl f \<Rightarrow> Inl f
      | Inr (res, h1) \<Rightarrow>
          (case evacuate_by_threads c cfg p from_region target_gen ts h1 of
             Inl f \<Rightarrow> Inl f
           | Inr (rs, h2) \<Rightarrow> Inr ((res, tld h1) # rs, h2)))"

text \<open>The state and the value of a run that did not fault.\<close>

definition result_state :: "fault + ('a \<times> heap) \<Rightarrow> heap option" where
  "result_state r = (case r of Inl f \<Rightarrow> None | Inr (x, h) \<Rightarrow> Some h)"

definition result_value :: "fault + ('a \<times> heap) \<Rightarrow> 'a option" where
  "result_value r = (case r of Inl f \<Rightarrow> None | Inr (x, h) \<Rightarrow> Some x)"

text \<open>The calls into collaborators made between two states.\<close>

definition new_events :: "heap \<Rightarrow> heap \<Rightarrow> event list" where
  "new_events h h' = drop (length (events h)) (events h')"

subsection \<open>Concrete inputs\<close>

text \<open>
  A small configuration and a small heap, used to run the definitions: regions of 1024
  bytes, cards of 64 words, a minimal buffer of 10 words (64 once aligned to a card), and
  both waste factors equal to one. The allocators of \<open>failing_collab\<close> always answer
  null and leave the thread-local data alone.
\<close>

definition example_config :: config where
  "example_config =
     \<lparr>UseTLAB = True, ZeroTLAB = False, ShenandoahGenerationalCensusAtEvac = False,
      ShenandoahGenerationalAdaptiveTenuring = True, ShenandoahEvacReserve = 5,
      ShenandoahOldEvacRatioPercent = 75, ShenandoahMaxEvacLABRatio = 0,
      scale_old_evac_waste = (\<lambda>n. n), scale_promo_evac_waste = (\<lambda>n. n),
      region_size_bytes = 1024, max_tlab_size_words = 512, PLAB_min_size = 10,
      card_size_in_words = 64, HeapWordSize = 8\<rparr>"

definition example_plab :: PLAB where
  "example_plab = \<lparr>plab_bottom = 4096, plab_top = 4150, plab_end = 4160, plab_waste = 0\<rparr>"

definition example_gclab :: PLAB where
  "example_gclab = \<lparr>plab_bottom = 8192, plab_top = 8200, plab_end = 8320, plab_waste = 0\<rparr>"

definition example_thread_data :: thread_data where
  "example_thread_data =
     \<lparr>gclab = Some example_gclab, plab = Some example_plab, gclab_size = 128, plab_size = 128,
      plab_retries_enabled = True, allow_plab_promotions = True, plab_promoted = 160,
      plab_actual_size = 512, is_oom_during_evac = False\<rparr>"

definition example_old_generation :: ShenandoahOldGeneration where
  "example_old_generation =
     \<lparr>og_available = 0, og_free_unaffiliated_regions = 0,
      og_has_unprocessed_collection_candidates = False,
      og_unprocessed_collection_candidates_live_memory = 0,
      og_promotion_potential = 8192, og_region_balance = 0, og_evacuation_reserve = 0,
      og_promoted_reserve = 0, og_parseable = False\<rparr>"

definition example_young_region :: ShenandoahHeapRegion where
  "example_young_region =
     \<lparr>affiliation = YOUNG_GENERATION, region_age = 2, region_is_active = True,
      region_is_humongous = False\<rparr>"

definition example_old_region :: ShenandoahHeapRegion where
  "example_old_region =
     \<lparr>affiliation = OLD_GENERATION, region_age = 0, region_is_active = True,
      region_is_humongous = False\<rparr>"

definition example_heap :: heap where
  "example_heap =
     \<lparr>tld = example_thread_data,
      objects = (\<lambda>a. \<lparr>obj_size = 16, obj_mark = Unlocked 1\<rparr>),
      heap_region_containing = (\<lambda>a. example_young_region),
      regions = [example_young_region, example_old_region],
      old_generation = example_old_generation,
      young_generation = \<lparr>yg_max_capacity = 102400, yg_evacuation_reserve = 0\<rparr>,
      active_generation_is_young = True, is_aging_cycle = True, tenuring_threshold = 3,
      is_concurrent_old_mark_in_progress = False, events = []\<rparr>"

text \<open>The same heap with objects of 8 words and 4 words left in the promotion buffer.\<close>

definition small_heap :: heap where
  "small_heap =
     example_heap
       \<lparr>tld := example_thread_data\<lparr>plab := Some (example_plab\<lparr>plab_top := 4156\<rparr>)\<rparr>,
        objects := (\<lambda>a. \<lparr>obj_size = 8, obj_mark = Unlocked 1\<rparr>)\<rparr>"

definition failing_collab :: collab where
  "failing_collab =
     \<lparr>allocate_memory = (\<lambda>req h. ((0, 0), tld h)),
      allocate_from_gclab = (\<lambda>sz h. (0, tld h)),
      is_in_old = (\<lambda>h a. True),
      transfer_to_young = (\<lambda>n h. True),
      transfer_to_old = (\<lambda>n h. True)\<rparr>"

text \<open>
  The allocators of \<open>granting_collab\<close> always succeed: a new buffer of the size asked
  for at address 16384, a shared allocation at address 32768, and a young copy bumped
  from the evacuation buffer of the thread.
\<close>

definition granting_collab :: collab where
  "granting_collab =
     \<lparr>allocate_memory =
        (\<lambda>req h. (case req of
                      For_PLAB min_size word_size \<Rightarrow> (16384, word_size)
                    | For_Shared_GC sz gen is_promotion \<Rightarrow> (32768, sz),
                    tld h)),
      allocate_from_gclab =
        (\<lambda>sz h. case gclab (tld h) of
                    None \<Rightarrow> (0, tld h)
                  | Some g \<Rightarrow>
                      (case plab_allocate sz g of
                         (obj, g1) \<Rightarrow> (obj, (tld h)\<lparr>gclab := Some g1\<rparr>))),
      is_in_old = (\<lambda>h a. True),
      transfer_to_young = (\<lambda>n h. True),
      transfer_to_old = (\<lambda>n h. True)\<rparr>"

text \<open>
  With \<open>shared_only_collab\<close> the evacuation buffer gives nothing and the shared
  allocator always grants, at address 32768.
\<close>

definition shared_only_collab :: collab where
  "shared_only_collab =
     \<lparr>allocate_memory =
        (\<lambda>req h. (case req of
                      For_PLAB min_size word_size \<Rightarrow> (16384, word_size)
                    | For_Shared_GC sz gen is_promotion \<Rightarrow> (32768, sz),
                    tld h)),
      allocate_from_gclab = (\<lambda>sz h. (0, tld h)),
      is_in_old = (\<lambda>h a. True),
      transfer_to_young = (\<lambda>n h. True),
      transfer_to_old = (\<lambda>n h. True)\<rparr>"


definition forwarded_heap :: heap where
  "forwarded_heap = example_heap\<lparr>objects := (\<lambda>a. \<lparr>obj_size = 16, obj_mark = Marked 7777\<rparr>)\<rparr>"

definition second_thread_data :: thread_data where
  "second_thread_data =
     example_thread_data
       \<lparr>gclab := Some \<lparr>plab_bottom = 12288, plab_top = 12288, plab_end = 12416,
                         plab_waste = 0\<rparr>\<rparr>"

text \<open>
  The shared allocator of \<open>regranting_collab\<close> refuses the first request it sees and
  grants every later one, allowing promotions from the buffer as it grants.
\<close>

definition is_allocate_memory :: "event \<Rightarrow> bool" where
  "is_allocate_memory e = (case e of Allocate_Memory req \<Rightarrow> True | _ \<Rightarrow> False)"

definition regranting_collab :: collab where
  "regranting_collab =
     \<lparr>allocate_memory =
        (\<lambda>req h. if list_ex is_allocate_memory (events h)
                  then (case req of
                          For_PLAB min_size word_size \<Rightarrow> (16384, word_size)
                        | For_Shared_GC sz gen is_promotion \<Rightarrow> (32768, sz),
                        (tld h)\<lparr>allow_plab_promotions := True\<rparr>)
                  else ((0, 0), tld h)),
      allocate_from_gclab = (\<lambda>sz h. (0, tld h)),
      is_in_old = (\<lambda>h a. True),
      transfer_to_young = (\<lambda>n h. True),
      transfer_to_old = (\<lambda>n h. True)\<rparr>"

section \<open>Verified properties\<close>

subsection \<open>The event log\<close>

lemma log_event_simps [simp]:
  "events (log_event e h) = events h @ [e]"
  "old_generation (log_event e h) = old_generation h"
  "tld (log_event e h) = tld h"
  "objects (log_event e h) = objects h"
  "regions (log_event e h) = regions h"
  "is_aging_cycle (log_event e h) = is_aging_cycle h"
  "young_generation (log_event e h) = young_generation h"
  by (simp_all add: log_event_def)

lemma new_events_append: "events h' = events h @ es \<Longrightarrow> new_events h h' = es"
  by (simp add: new_events_def)

subsection \<open>Unfolding and the concrete inputs\<close>

lemmas thread_data_setters =
  set_gclab_def set_plab_def set_gclab_size_def set_plab_size_def enable_plab_retries_def
  disable_plab_retries_def disable_plab_promotions_def reset_plab_promoted_def
  add_to_plab_promoted_def subtract_from_plab_promoted_def set_plab_actual_size_def

lemmas example_defs =
  example_config_def example_plab_def example_gclab_def example_thread_data_def
  example_old_generation_def example_young_region_def example_old_region_def
  example_heap_def failing_collab_def

lemmas size_limit_defs =
  plab_min_size_def plab_max_size_def calculate_min_plab_def calculate_max_plab_def
  align_up_def align_down_def

lemmas plab_defs =
  words_remaining_def plab_allocate_def undo_allocation_def plab_retire_def set_buf_def

lemmas buffer_manager_defs =
  allocate_from_plab_def allocate_from_plab_slow_def replace_plab_def retire_plab_def
  allocate_new_plab_def allocate_memory_call_def log_event_def

lemma example_config_fields [simp]:
  "UseTLAB example_config" "\<not> ZeroTLAB example_config"
  "\<not> ShenandoahGenerationalCensusAtEvac example_config"
  "ShenandoahGenerationalAdaptiveTenuring example_config"
  "PLAB_min_size example_config = 10" "card_size_in_words example_config = 64"
  "HeapWordSize example_config = 8" "region_size_bytes example_config = 1024"
  by (simp_all add: example_config_def)

lemma example_size_limits [simp]:
  "plab_min_size example_config = 64" "plab_max_size example_config = 512"
  by (simp_all add: size_limit_defs example_config_def)

lemma keeps_plab_size_failing_collab: "keeps_plab_size failing_collab"
  by (simp add: keeps_plab_size_def failing_collab_def)

subsection \<open>Signed reading of 64-bit words\<close>

lemma uint_small: "unat (d::64 word) < 2^63 \<Longrightarrow> uint d < 2^63"
proof -
  assume "unat d < 2^63"
  then have "int (unat d) < int (2^63)" by (rule iffD2[OF of_nat_less_iff])
  then show ?thesis by simp
qed

lemma sint_small: "unat (d::64 word) < 2^63 \<Longrightarrow> sint d = int (unat d)"
proof -
  assume a: "unat d < 2^63"
  have "signed_take_bit 63 (uint d) = uint d"
  proof (rule signed_take_bit_int_eq_self)
    have "- (2 ^ 63) \<le> (0::int)" by simp
    also have "0 \<le> uint d" by simp
    finally show "- (2 ^ 63) \<le> uint d" .
    show "uint d < 2 ^ 63" using a by (rule uint_small)
  qed
  then show ?thesis by (simp add: sint_uint)
qed

lemma sint_neg_small: "unat (d::64 word) < 2^63 \<Longrightarrow> sint (0 - d) = - int (unat d)"
proof -
  assume a: "unat d < 2^63"
  have s: "sint d = int (unat d)" using a by (rule sint_small)
  have "sint (- d) = signed_take_bit 63 (- sint d)"
    by (simp add: sint_word_ariths)
  also have "\<dots> = - sint d"
  proof (rule signed_take_bit_int_eq_self)
    show "- (2 ^ 63) \<le> - sint d" using uint_small[OF a] s by simp
    have "- uint d \<le> 0" by simp
    also have "(0::int) < 2 ^ 63" by simp
    finally show "- sint d < 2 ^ 63" using s by simp
  qed
  finally show ?thesis using s by simp
qed

lemma unat_div_small: "1 < (r::64 word) \<Longrightarrow> unat (l div r) < 2^63"
proof -
  assume "1 < r"
  then have r: "2 \<le> unat r" by (simp add: word_less_nat_alt) 
  have "unat (l div r) = unat l div unat r" by (simp add: unat_div)
  also have "\<dots> \<le> unat l div 2" using r by (simp add: div_le_mono2)
  also have "\<dots> < 2^63" using unsigned_less[of l, where 'a=nat] by simp
  finally show ?thesis .
qed

lemma unat_min_le2: "unat (min (a::64 word) b) \<le> unat b"
  by (metis min.cobounded1 min.commute word_le_nat_alt)

lemma unat_plus_le: "unat ((a::64 word) + b) \<le> unat a + unat b"
  by (simp add: unat_word_ariths)

subsection \<open>The balance of the old generation\<close>

lemma region_balance_set [simp]:
  "og_region_balance (old_generation (set_region_balance b h)) = b"
  by (simp add: set_region_balance_def)

lemma free_unaffiliated_set [simp]:
  "og_free_unaffiliated_regions (old_generation (set_region_balance b h)) =
   og_free_unaffiliated_regions (old_generation h)"
  by (simp add: set_region_balance_def)

lemma compute_old_generation_balance_cases:
  assumes "compute_old_generation_balance cfg lim cs h = Inr h'"
  shows "(\<exists>s. h' = set_region_balance s h \<and>
              unat s \<le> unat (og_free_unaffiliated_regions (old_generation h) + cs)) \<or>
         (\<exists>d. h' = set_region_balance (0 - d) h \<and>
              unat d \<le> unat (lim div region_size_bytes cfg))"
proof -
  let ?rs = "region_size_bytes cfg"
  let ?avail = "og_available (old_generation h) + cs * ?rs"
  let ?reserve = "old_reserve cfg lim h"
  have nz: "?rs \<noteq> 0"
    using assms by (auto simp: compute_old_generation_balance_def Let_def)
  show ?thesis
  proof (cases "?avail \<ge> ?reserve")
    case True
    then have "h' = set_region_balance
                 (min ((?avail - ?reserve) div ?rs)
                      (og_free_unaffiliated_regions (old_generation h) + cs)) h"
      using assms nz by (simp add: compute_old_generation_balance_def Let_def)
    then show ?thesis using unat_min_le2 by blast
  next
    case False
    then have "h' = set_region_balance
                 (0 - min ((?reserve - ?avail + ?rs - 1) div ?rs) (lim div ?rs)) h"
      using assms nz by (simp add: compute_old_generation_balance_def Let_def)
    then show ?thesis using unat_min_le2 by blast
  qed
qed

text \<open>
  C1, as written, second half: a transfer to old never exceeds
  \<open>free_unaffiliated_regions + evacuating_old_regions\<close>. It fails: with no old memory
  available, no unaffiliated old region, no old region in the collection set, 8192 bytes
  of promotion potential and a transfer limit of ten regions, the stored balance is
  \<open>-8\<close>, a transfer of eight regions to old, while the bound is zero.
\<close>

theorem transfer_to_old_exceeds_unaffiliated:
  "compute_old_generation_balance example_config 10240 0 example_heap =
     Inr (set_region_balance (0 - 8) example_heap) \<and>
   sint (og_region_balance (old_generation (set_region_balance (0 - 8) example_heap))) = - 8 \<and>
   \<not> (8 \<le> int (unat (og_free_unaffiliated_regions (old_generation example_heap)) + unat (0 :: size_t)))"
  by (simp add: compute_old_generation_balance_def old_reserve_def example_config_def
        example_heap_def example_old_generation_def Let_def set_region_balance_def)

text \<open>
  C1, amended: for every call of \<^verbatim>\<open>compute_old_generation_balance\<close> that returns,
  with regions of more than one byte and fewer than \<open>2^63\<close> unaffiliated and
  evacuating old regions, the stored signed balance \<open>b\<close> satisfies
  \<open>- (transfer_limit div region_size) \<le> b\<close> and
  \<open>b \<le> free_unaffiliated_regions + evacuating_old_regions\<close>. So a deficit (a negative
  balance, a transfer to old) has a magnitude of at most \<open>transfer_limit div region_size\<close>
  regions, and a surplus (a positive balance, a transfer to young) is at most
  \<open>free_unaffiliated_regions + evacuating_old_regions\<close> regions.
\<close>

theorem compute_old_generation_balance_bounds:
  assumes ok: "compute_old_generation_balance cfg old_xfer_limit old_cset_regions h = Inr h'"
      and rs: "1 < region_size_bytes cfg"
      and cnt: "unat (og_free_unaffiliated_regions (old_generation h)) + unat old_cset_regions < 2 ^ 63"
  shows "- int (unat old_xfer_limit div unat (region_size_bytes cfg))
           \<le> sint (og_region_balance (old_generation h')) \<and>
         sint (og_region_balance (old_generation h'))
           \<le> int (unat (og_free_unaffiliated_regions (old_generation h)) + unat old_cset_regions)"
proof -
  let ?free = "og_free_unaffiliated_regions (old_generation h)"
  from compute_old_generation_balance_cases[OF ok]
  consider (surplus) s where "h' = set_region_balance s h" "unat s \<le> unat (?free + old_cset_regions)"
    | (deficit) d where "h' = set_region_balance (0 - d) h"
        "unat d \<le> unat (old_xfer_limit div region_size_bytes cfg)"
    by blast
  then show ?thesis
  proof cases
    case surplus
    have b: "og_region_balance (old_generation h') = s" using surplus(1) by simp
    have le: "unat s \<le> unat ?free + unat old_cset_regions"
      using surplus(2) unat_plus_le[of ?free old_cset_regions] by linarith
    then have "unat s < 2 ^ 63" using cnt by linarith
    then have v: "sint s = int (unat s)" by (rule sint_small)
    have "- int (unat old_xfer_limit div unat (region_size_bytes cfg)) \<le> int (unat s)"
      by linarith
    moreover have "int (unat s) \<le> int (unat ?free + unat old_cset_regions)"
      using le by linarith
    ultimately show ?thesis unfolding b v by (rule conjI)
  next
    case deficit
    have b: "og_region_balance (old_generation h') = 0 - d" using deficit(1) by simp
    have small: "unat d < 2 ^ 63"
      using deficit(2) unat_div_small[OF rs, of old_xfer_limit] by linarith
    have v: "sint (0 - d) = - int (unat d)" using small by (rule sint_neg_small)
    have "unat (old_xfer_limit div region_size_bytes cfg) =
          unat old_xfer_limit div unat (region_size_bytes cfg)"
      by (rule unat_div)
    then have "- int (unat old_xfer_limit div unat (region_size_bytes cfg)) \<le> - int (unat d)"
      using deficit(2) by linarith
    moreover have "- int (unat d) \<le> int (unat ?free + unat old_cset_regions)"
      by linarith
    ultimately show ?thesis unfolding b v by (rule conjI)
  qed
qed

text \<open>C1, amended: the theorem at the input of the counterexample.\<close>

theorem compute_old_generation_balance_bounds_witness:
  "compute_old_generation_balance example_config 10240 0 example_heap =
     Inr (set_region_balance (0 - 8) example_heap) \<and>
   - int (unat (10240 :: size_t) div unat (region_size_bytes example_config))
     \<le> sint (og_region_balance (old_generation (set_region_balance (0 - 8) example_heap))) \<and>
   sint (og_region_balance (old_generation (set_region_balance (0 - 8) example_heap)))
     \<le> int (unat (og_free_unaffiliated_regions (old_generation example_heap)) + unat (0 :: size_t))"
proof -
  have ok: "compute_old_generation_balance example_config 10240 0 example_heap =
     Inr (set_region_balance (0 - 8) example_heap)"
    by (simp add: compute_old_generation_balance_def old_reserve_def example_config_def
        example_heap_def example_old_generation_def Let_def)
  have rs: "1 < region_size_bytes example_config" by (simp add: example_config_def)
  have cnt: "unat (og_free_unaffiliated_regions (old_generation example_heap)) + unat (0 :: size_t) < 2 ^ 63"
    by (simp add: example_heap_def example_old_generation_def)
  show ?thesis using ok compute_old_generation_balance_bounds [OF ok rs cnt] by simp
qed

subsection \<open>Retiring a buffer\<close>

text \<open>
  C8: \<^verbatim>\<open>retire_plab\<close> computes not-promoted as the recorded actual size minus the
  promoted bytes, so that promoted plus not-promoted is the actual size; when that amount
  is positive it is handed to \<^verbatim>\<open>unexpend_promoted\<close>, and that is the only call made
  besides the registration of the filler object; the promoted-bytes and actual-size
  counters of the thread are zero afterwards.
\<close>

theorem retire_plab_conservation:
  assumes "retire_plab c b h = (b', h')"
  shows "plab_promoted (tld h) + (plab_actual_size (tld h) - plab_promoted (tld h))
           = plab_actual_size (tld h) \<and>
         filter (\<lambda>e. e \<noteq> Register_Object_Without_Lock (plab_top b)) (new_events h h') =
           (if 0 < plab_actual_size (tld h) - plab_promoted (tld h)
            then [Unexpend_Promoted (plab_actual_size (tld h) - plab_promoted (tld h))] else []) \<and>
         plab_promoted (tld h') = 0 \<and> plab_actual_size (tld h') = 0"
  using assms
  by (auto simp: retire_plab_def Let_def new_events_def log_event_def reset_plab_promoted_def
        set_plab_actual_size_def split: if_splits)

text \<open>
  C8 at a buffer with ten unused words, 512 bytes granted and 160 bytes promoted: 352
  bytes go back to the promotion reserve.
\<close>

theorem retire_plab_conservation_witness:
  "retire_plab failing_collab example_plab example_heap =
     (fst (retire_plab failing_collab example_plab example_heap),
      snd (retire_plab failing_collab example_plab example_heap)) \<and>
   plab_promoted (tld example_heap) + 352 = plab_actual_size (tld example_heap) \<and>
   filter (\<lambda>e. e \<noteq> Register_Object_Without_Lock (plab_top example_plab))
     (new_events example_heap (snd (retire_plab failing_collab example_plab example_heap))) =
     [Unexpend_Promoted 352] \<and>
   plab_promoted (tld (snd (retire_plab failing_collab example_plab example_heap))) = 0 \<and>
   plab_actual_size (tld (snd (retire_plab failing_collab example_plab example_heap))) = 0"
proof -
  have run: "retire_plab failing_collab example_plab example_heap =
     (fst (retire_plab failing_collab example_plab example_heap),
      snd (retire_plab failing_collab example_plab example_heap))"
    by simp
  have vals: "plab_actual_size (tld example_heap) - plab_promoted (tld example_heap) = 352"
    by (simp add: example_heap_def example_thread_data_def)
  show ?thesis
    using retire_plab_conservation [OF run] unfolding vals by simp
qed

subsection \<open>Cycle completion\<close>

lemma coalesce_work_frame:
  "old_generation (coalesce_work rs i h) = old_generation h \<and>
   (\<exists>es. events (coalesce_work rs i h) = events h @ es \<and> (\<forall>b. Run_Task_Coalesce b \<notin> set es))"
proof (induction rs arbitrary: i h)
  case Nil
  show ?case by simp
next
  case (Cons r rs)
  show ?case
  proof (cases "region_is_old r \<and> region_is_active r \<and> \<not> region_is_humongous r")
    case True
    let ?h1 = "log_event (Oop_Coalesce_And_Fill i False)
                 (log_event (Begin_Preemptible_Coalesce_And_Fill i) h)"
    from Cons.IH[of "Suc i" ?h1] obtain es where
      og: "old_generation (coalesce_work rs (Suc i) ?h1) = old_generation ?h1" and
      es: "events (coalesce_work rs (Suc i) ?h1) = events ?h1 @ es" "\<forall>b. Run_Task_Coalesce b \<notin> set es"
      by blast
    have "events (coalesce_work (r # rs) i h) =
            events h @ ([Begin_Preemptible_Coalesce_And_Fill i, Oop_Coalesce_And_Fill i False] @ es)"
      using True es(1) by simp
    moreover have "\<forall>b. Run_Task_Coalesce b \<notin>
        set ([Begin_Preemptible_Coalesce_And_Fill i, Oop_Coalesce_And_Fill i False] @ es)"
      using es(2) by simp
    ultimately show ?thesis using True og by (metis coalesce_work.simps(2) log_event_simps(2))
  next
    case False
    then have "coalesce_work (r # rs) i h = coalesce_work rs (Suc i) h" by auto
    then show ?thesis using Cons.IH[of "Suc i" h] by simp
  qed
qed

lemma coalesce_and_fill_old_regions_effect:
  "og_parseable (old_generation (coalesce_and_fill_old_regions conc h)) \<and>
   (\<exists>es. events (coalesce_and_fill_old_regions conc h) = events h @ Run_Task_Coalesce conc # es)"
proof -
  let ?h1 = "log_event (Run_Task_Coalesce conc) h"
  obtain es where "events (coalesce_work (regions ?h1) 0 ?h1) = events ?h1 @ es"
    using coalesce_work_frame[of "regions ?h1" 0 ?h1] by blast
  then show ?thesis
    by (simp add: coalesce_and_fill_old_regions_def set_parseable_def)
qed

lemma balance_generations_frame:
  "og_parseable (old_generation (snd (balance_generations c h))) = og_parseable (old_generation h) \<and>
   (\<exists>es. events (snd (balance_generations c h)) = events h @ es \<and>
         (\<forall>b. Run_Task_Coalesce b \<notin> set es))"
  by (simp add: balance_generations_def Let_def set_region_balance_def)

lemma reset_generation_reserves_frame [simp]:
  "og_parseable (old_generation (reset_generation_reserves h)) = og_parseable (old_generation h)"
  "events (reset_generation_reserves h) = events h"
  by (simp_all add: reset_generation_reserves_def)

text \<open>
  C9: after the degenerated completion and after the concurrent completion the old
  generation is parseable, and in each of them the coalesce-and-fill task is run if and
  only if the old generation is not parseable when the routine tests it. The transfers of
  the generation sizer answer with a flag and do not write the parseable flag.
\<close>

theorem completion_leaves_old_parseable:
  "og_parseable (old_generation (complete_degenerated_cycle c h)) \<and>
   og_parseable (old_generation (complete_concurrent_cycle c h)) \<and>
   ((\<exists>b. Run_Task_Coalesce b \<in> set (new_events h (complete_degenerated_cycle c h)))
      = (\<not> og_parseable (old_generation h))) \<and>
   ((\<exists>b. Run_Task_Coalesce b \<in> set (new_events h (complete_concurrent_cycle c h)))
      = (\<not> og_parseable (old_generation h)))"
proof -
  let ?h1 = "if is_concurrent_old_mark_in_progress h
             then log_event Transfer_Pointers_From_Satb h else h"
  let ?h2 = "reset_generation_reserves (snd (balance_generations c ?h1))"
  have p1: "og_parseable (old_generation ?h1) = og_parseable (old_generation h)" by simp
  obtain es1 where es1: "events ?h1 = events h @ es1" "\<forall>b. Run_Task_Coalesce b \<notin> set es1"
    by (cases "is_concurrent_old_mark_in_progress h") auto
  from balance_generations_frame[of c ?h1] obtain es2 where
    p2: "og_parseable (old_generation ?h2) = og_parseable (old_generation h)" and
    es2: "events ?h2 = events ?h1 @ es2" "\<forall>b. Run_Task_Coalesce b \<notin> set es2"
    using p1 by auto
  have d: "complete_degenerated_cycle c h =
             (if \<not> og_parseable (old_generation h)
              then coalesce_and_fill_old_regions False ?h2 else ?h2)"
    using p2 by (simp add: complete_degenerated_cycle_def Let_def)
  have deg: "og_parseable (old_generation (complete_degenerated_cycle c h)) \<and>
     ((\<exists>b. Run_Task_Coalesce b \<in> set (new_events h (complete_degenerated_cycle c h)))
        = (\<not> og_parseable (old_generation h)))"
  proof (cases "og_parseable (old_generation h)")
    case True
    have "events (complete_degenerated_cycle c h) = events h @ (es1 @ es2)"
      using d True es1(1) es2(1) by simp
    then have "new_events h (complete_degenerated_cycle c h) = es1 @ es2"
      by (rule new_events_append)
    then show ?thesis using True d p2 es1(2) es2(2) by simp
  next
    case False
    from coalesce_and_fill_old_regions_effect[of False ?h2] obtain es3 where
      q: "og_parseable (old_generation (coalesce_and_fill_old_regions False ?h2))" and
      e3: "events (coalesce_and_fill_old_regions False ?h2) = events ?h2 @ Run_Task_Coalesce False # es3"
      by blast
    have "events (complete_degenerated_cycle c h) =
            events h @ (es1 @ es2 @ Run_Task_Coalesce False # es3)"
      using d False e3 es1(1) es2(1) by simp
    then have "new_events h (complete_degenerated_cycle c h) = es1 @ es2 @ Run_Task_Coalesce False # es3"
      by (rule new_events_append)
    then show ?thesis using False d q by auto
  qed
  let ?g1 = "if \<not> og_parseable (old_generation h) then entry_global_coalesce_and_fill h else h"
  have g: "complete_concurrent_cycle c h = reset_generation_reserves (snd (balance_generations c ?g1))"
    by (simp add: complete_concurrent_cycle_def Let_def)
  from balance_generations_frame[of c ?g1] obtain fs2 where
    gp: "og_parseable (old_generation (complete_concurrent_cycle c h)) = og_parseable (old_generation ?g1)" and
    fs2: "events (complete_concurrent_cycle c h) = events ?g1 @ fs2" "\<forall>b. Run_Task_Coalesce b \<notin> set fs2"
    unfolding g by auto
  have conc: "og_parseable (old_generation (complete_concurrent_cycle c h)) \<and>
     ((\<exists>b. Run_Task_Coalesce b \<in> set (new_events h (complete_concurrent_cycle c h)))
        = (\<not> og_parseable (old_generation h)))"
  proof (cases "og_parseable (old_generation h)")
    case True
    have "events (complete_concurrent_cycle c h) = events h @ fs2"
      using fs2(1) True by simp
    then have "new_events h (complete_concurrent_cycle c h) = fs2"
      by (rule new_events_append)
    then show ?thesis using True gp fs2(2) by simp
  next
    case False
    from coalesce_and_fill_old_regions_effect[of True h] obtain fs1 where
      q: "og_parseable (old_generation (coalesce_and_fill_old_regions True h))" and
      e1: "events (coalesce_and_fill_old_regions True h) = events h @ Run_Task_Coalesce True # fs1"
      by blast
    have "events (complete_concurrent_cycle c h) = events h @ (Run_Task_Coalesce True # fs1 @ fs2)"
      using fs2(1) False e1 by (simp add: entry_global_coalesce_and_fill_def)
    then have "new_events h (complete_concurrent_cycle c h) = Run_Task_Coalesce True # fs1 @ fs2"
      by (rule new_events_append)
    then show ?thesis using False gp q by (auto simp: entry_global_coalesce_and_fill_def)
  qed
  show ?thesis using deg conc by blast
qed

text \<open>
  C9 at a heap whose old generation is not parseable: both routines run the task, over
  the one active old region, and leave the old generation parseable.
\<close>

theorem completion_leaves_old_parseable_witness:
  "og_parseable (old_generation (complete_degenerated_cycle failing_collab example_heap)) \<and>
   og_parseable (old_generation (complete_concurrent_cycle failing_collab example_heap)) \<and>
   new_events example_heap (complete_degenerated_cycle failing_collab example_heap) =
     [Run_Task_Coalesce False, Begin_Preemptible_Coalesce_And_Fill 1,
      Oop_Coalesce_And_Fill 1 False] \<and>
   new_events example_heap (complete_concurrent_cycle failing_collab example_heap) =
     [Run_Task_Coalesce True, Begin_Preemptible_Coalesce_And_Fill 1,
      Oop_Coalesce_And_Fill 1 False] \<and>
   \<not> og_parseable (old_generation example_heap)"
  using completion_leaves_old_parseable [of failing_collab example_heap]
  by (simp add: complete_degenerated_cycle_def complete_concurrent_cycle_def
      entry_global_coalesce_and_fill_def coalesce_and_fill_old_regions_def
      balance_generations_def reset_generation_reserves_def set_region_balance_def
      set_parseable_def new_events_def log_event_def Let_def region_is_old_def
      example_heap_def example_old_generation_def example_young_region_def
      example_old_region_def)

subsection \<open>The slow path of the promotion buffer\<close>

lemma retire_plab_plab_size:
  "plab_size (tld (snd (retire_plab c b h))) = plab_size (tld h)"
  by (simp add: retire_plab_def Let_def thread_data_setters)

lemma allocate_memory_call_plab_size:
  "keeps_plab_size c \<Longrightarrow> plab_size (tld (snd (allocate_memory_call c req h))) = plab_size (tld h)"
  by (simp add: allocate_memory_call_def keeps_plab_size_def split: prod.splits)
     (metis snd_conv)

lemma allocate_new_plab_state:
  "snd (allocate_new_plab c m w h) = snd (allocate_memory_call c (For_PLAB m w) h)"
  by (simp add: allocate_new_plab_def split: prod.splits)

lemma allocate_new_plab_plab_size:
  "keeps_plab_size c \<Longrightarrow> plab_size (tld (snd (allocate_new_plab c m w h))) = plab_size (tld h)"
  by (simp add: allocate_new_plab_state allocate_memory_call_plab_size)

lemma replace_plab_plab_size:
  assumes "replace_plab c cfg sz ip m w b h = Inr (obj, h')" "keeps_plab_size c"
  shows "plab_size (tld h') = plab_size (tld h)"
proof -
  obtain b1 h1 where r: "retire_plab c b h = (b1, h1)" by (cases "retire_plab c b h")
  obtain buf act h2 where a: "allocate_new_plab c m w (set_plab (Some b1) h1) = ((buf, act), h2)"
    by (metis surj_pair)
  have "plab_size (tld h1) = plab_size (tld h)" using retire_plab_plab_size[of c b h] r by simp
  moreover have "plab_size (tld h2) = plab_size (tld (set_plab (Some b1) h1))"
    using allocate_new_plab_plab_size[OF assms(2), of m w "set_plab (Some b1) h1"] a by simp
  ultimately have h2: "plab_size (tld h2) = plab_size (tld h)" by (simp add: set_plab_def)
  have "replace_plab c cfg sz ip m w b h =
          (if buf = 0 then
             (if m = plab_min_size cfg then Inr (0, disable_plab_promotions h2) else Inr (0, h2))
           else
             (let h3 = enable_plab_retries h2;
                  h4 = (if ZeroTLAB cfg then log_event (Zero_To_Words buf act) h3 else h3)
              in case plab (tld h4) of
                   None \<Rightarrow> Inl Null_Dereference
                 | Some b2 \<Rightarrow>
                     (let b3 = set_buf buf act b2; h5 = set_plab (Some b3) h4
                      in if ip \<and> \<not> allow_plab_promotions (tld h5) then Inr (0, h5)
                         else (case plab_allocate sz b3 of
                                 (obj, b4) \<Rightarrow> Inr (obj, set_plab (Some b4) h5)))))"
    by (simp add: replace_plab_def r a)
  then show ?thesis
    using assms(1) h2
    by (auto simp: Let_def thread_data_setters split: if_splits option.splits prod.splits)
qed

lemma allocate_from_plab_slow_unfold:
  assumes "cur = (if plab_size (tld h) = 0 then plab_min_size cfg else plab_size (tld h))"
  shows "allocate_from_plab_slow c cfg sz is_promotion h =
     (if cur < sz then Inr (0, set_plab_size (min (cur * 2) (plab_max_size cfg)) h)
      else (case plab (tld h) of
              None \<Rightarrow> Inl Null_Dereference
            | Some b \<Rightarrow>
                if words_remaining b < plab_min_size cfg
                then replace_plab c cfg sz is_promotion
                       (if sz > plab_min_size cfg
                        then align_up sz (card_size_in_words cfg) else plab_min_size cfg)
                       cur b (set_plab_size (min (cur * 2) (plab_max_size cfg)) h)
                else Inr (0, set_plab_size (min (cur * 2) (plab_max_size cfg)) h)))"
proof -
  have "plab (tld (set_plab_size (min (cur * 2) (plab_max_size cfg)) h)) = plab (tld h)"
    by (simp add: set_plab_size_def)
  then show ?thesis
    unfolding allocate_from_plab_slow_def Let_def assms[symmetric] by simp
qed

text \<open>
  C6, as written, first half: the preferred size becomes
  \<open>min (2 * previous preferred size) maximum\<close> on every call. It fails when the
  recorded preferred size is \<open>0\<close>, its value before the first buffer of a thread: the
  source doubles the configured minimum instead, here \<open>2 * 64 = 128\<close>, not \<open>0\<close>.
\<close>

theorem preferred_size_after_zero:
  "map_option (\<lambda>s. plab_size (tld s))
     (result_state (allocate_from_plab_slow failing_collab example_config 16 True
                      (set_plab_size 0 example_heap))) = Some 128 \<and>
   plab_size (tld (set_plab_size 0 example_heap)) = 0 \<and>
   min (2 * plab_size (tld (set_plab_size 0 example_heap))) (plab_max_size example_config) = 0"
  by (simp add: result_state_def buffer_manager_defs plab_defs thread_data_setters
      example_heap_def example_thread_data_def example_plab_def failing_collab_def Let_def)

text \<open>
  C6, amended: let \<open>cur\<close> be the previous preferred size, or the configured minimum when
  the previous preferred size is \<open>0\<close>. For every call of
  \<^verbatim>\<open>allocate_from_plab_slow\<close> that returns, with an allocator that leaves the preferred
  size alone, the preferred size afterwards is \<open>min (cur * 2) maximum\<close>, whether or not
  a buffer was obtained. If \<open>cur\<close>, the size that would be asked for, is smaller than the
  object, the call answers null and changes nothing but the preferred size: the buffer is
  not retired. The candidate \<open>min (cur * 2) maximum\<close> being smaller than the object
  implies \<open>cur\<close> being smaller, when \<open>cur\<close> is at most the maximum and \<open>cur * 2\<close> does
  not wrap.
\<close>

theorem allocate_from_plab_slow_preferred_size:
  assumes run: "allocate_from_plab_slow c cfg sz is_promotion h = Inr (obj, h')"
      and keeps: "keeps_plab_size c"
      and cur: "cur = (if plab_size (tld h) = 0 then plab_min_size cfg else plab_size (tld h))"
  shows "plab_size (tld h') = min (cur * 2) (plab_max_size cfg) \<and>
         (cur < sz \<longrightarrow> obj = 0 \<and> h' = set_plab_size (min (cur * 2) (plab_max_size cfg)) h) \<and>
         (min (cur * 2) (plab_max_size cfg) < sz \<and> cur \<le> plab_max_size cfg \<and> unat cur < 2 ^ 63
            \<longrightarrow> cur < sz)"
proof -
  let ?future = "min (cur * 2) (plab_max_size cfg)"
  let ?h1 = "set_plab_size ?future h"
  note unfold = allocate_from_plab_slow_unfold [OF cur]
  have s1: "plab_size (tld ?h1) = ?future" by (simp add: set_plab_size_def)
  have a: "plab_size (tld h') = ?future"
  proof (cases "cur < sz")
    case True
    then show ?thesis using run s1 unfolding unfold by auto
  next
    case False
    show ?thesis
    proof (cases "plab (tld h)")
      case None
      then show ?thesis using run False unfolding unfold by simp
    next
      case (Some b)
      show ?thesis
      proof (cases "words_remaining b < plab_min_size cfg")
        case True
        then have "replace_plab c cfg sz is_promotion
                     (if sz > plab_min_size cfg then align_up sz (card_size_in_words cfg)
                      else plab_min_size cfg) cur b ?h1 = Inr (obj, h')"
          using run False Some unfolding unfold by simp
        from replace_plab_plab_size[OF this keeps] show ?thesis using s1 by simp
      next
        case F2: False
        then show ?thesis using run False Some s1 unfolding unfold by auto
      qed
    qed
  qed
  have b: "cur < sz \<longrightarrow> obj = 0 \<and> h' = ?h1"
    using run unfolding unfold by auto
  have c: "?future < sz \<and> cur \<le> plab_max_size cfg \<and> unat cur < 2 ^ 63 \<longrightarrow> cur < sz"
  proof (intro impI, elim conjE)
    assume lt: "?future < sz" and le: "cur \<le> plab_max_size cfg" and sm: "unat cur < 2 ^ 63"
    have "unat (cur * 2) = unat cur * 2"
      using sm by (simp add: unat_word_ariths)
    then have "cur \<le> cur * 2" by (simp add: word_le_nat_alt)
    then have "cur \<le> ?future" using le by (simp add: min_def)
    then show "cur < sz" using lt by (rule le_less_trans)
  qed
  show ?thesis using a b c by blast
qed

text \<open>C6, amended, for an object of 300 words and a preferred size of 128 words.\<close>

theorem allocate_from_plab_slow_preferred_size_witness:
  "allocate_from_plab_slow failing_collab example_config 300 True example_heap =
     Inr (0, set_plab_size 256 example_heap) \<and>
   keeps_plab_size failing_collab \<and>
   plab_size (tld (set_plab_size 256 example_heap)) = min (128 * 2) (plab_max_size example_config) \<and>
   (128 :: size_t) < 300 \<and> min (128 * 2) (plab_max_size example_config) < (300 :: size_t) \<and>
   (128 :: size_t) \<le> plab_max_size example_config \<and> unat (128 :: size_t) < 2 ^ 63"
proof -
  have run: "allocate_from_plab_slow failing_collab example_config 300 True example_heap =
     Inr (0, set_plab_size 256 example_heap)"
    by (simp add: allocate_from_plab_slow_def Let_def example_heap_def example_thread_data_def)
  have cur: "(128 :: size_t) =
     (if plab_size (tld example_heap) = 0 then plab_min_size example_config
      else plab_size (tld example_heap))"
    by (simp add: example_heap_def example_thread_data_def)
  note t = allocate_from_plab_slow_preferred_size [OF run keeps_plab_size_failing_collab cur]
  have c1: "plab_size (tld (set_plab_size 256 example_heap)) =
              min (128 * 2) (plab_max_size example_config)"
    using t by (rule conjunct1)
  have c2: "(128 :: size_t) < 300" by simp
  have c3: "min (128 * 2) (plab_max_size example_config) < (300 :: size_t)" by simp
  have c4: "(128 :: size_t) \<le> plab_max_size example_config" by simp
  have c5: "unat (128 :: size_t) < 2 ^ 63" by simp
  show ?thesis
    using run keeps_plab_size_failing_collab c1 c2 c3 c4 c5 by blast
qed

subsection \<open>A replacement buffer that is refused or granted\<close>

lemma allocate_from_plab_fails_fast:
  "\<not> allow_plab_promotions (tld h) \<Longrightarrow> allocate_from_plab c cfg sz True h = Inr (0, h)"
  by (simp add: allocate_from_plab_def split: option.splits)

lemma replace_plab_unfold:
  assumes "retire_plab c b h = (b1, h1)"
      and "allocate_new_plab c m w (set_plab (Some b1) h1) = ((buf, act), h2)"
  shows "replace_plab c cfg sz ip m w b h =
          (if buf = 0 then
             (if m = plab_min_size cfg then Inr (0, disable_plab_promotions h2) else Inr (0, h2))
           else
             (let h3 = enable_plab_retries h2;
                  h4 = (if ZeroTLAB cfg then log_event (Zero_To_Words buf act) h3 else h3)
              in case plab (tld h4) of
                   None \<Rightarrow> Inl Null_Dereference
                 | Some b2 \<Rightarrow>
                     (let b3 = set_buf buf act b2; h5 = set_plab (Some b3) h4
                      in if ip \<and> \<not> allow_plab_promotions (tld h5) then Inr (0, h5)
                         else (case plab_allocate sz b3 of
                                 (obj, b4) \<Rightarrow> Inr (obj, set_plab (Some b4) h5)))))"
  by (simp add: replace_plab_def assms)

lemma replace_plab_enables_retries:
  assumes "retire_plab c b h = (b1, h1)"
      and "allocate_new_plab c m w (set_plab (Some b1) h1) = ((buf, act), h2)"
      and "buf \<noteq> 0"
      and "replace_plab c cfg sz ip m w b h = Inr (obj, h')"
  shows "plab_retries_enabled (tld h')"
  using assms(3,4) unfolding replace_plab_unfold [OF assms(1,2)]
  by (auto simp: Let_def thread_data_setters split: if_splits option.splits prod.splits)

lemma failing_collab_request:
  "fst (allocate_new_plab failing_collab m w s) = (0, 0)"
  by (simp add: allocate_new_plab_def allocate_memory_call_def failing_collab_def)

lemma granting_collab_request:
  "fst (allocate_new_plab granting_collab m w s) = (16384, w)"
  by (simp add: allocate_new_plab_def allocate_memory_call_def granting_collab_def)

lemma retire_plab_allow:
  "allow_plab_promotions (tld (snd (retire_plab c b h))) = allow_plab_promotions (tld h)"
  by (simp add: retire_plab_def Let_def thread_data_setters)

lemma allocate_new_plab_keeps_disabled:
  assumes "never_enables_promotions c" "\<not> allow_plab_promotions (tld h)"
  shows "\<not> allow_plab_promotions (tld (snd (allocate_new_plab c m w h)))"
proof -
  have "\<not> allow_plab_promotions (snd (allocate_memory c (For_PLAB m w) h))"
    using assms by (simp add: never_enables_promotions_def)
  then show ?thesis
    by (simp add: allocate_new_plab_state allocate_memory_call_def split: prod.splits)
       (metis snd_conv)
qed

lemma replace_plab_keeps_disabled:
  assumes run: "replace_plab c cfg sz ip m w b h = Inr (obj, h')"
      and frame: "never_enables_promotions c" and off: "\<not> allow_plab_promotions (tld h)"
  shows "\<not> allow_plab_promotions (tld h')"
proof -
  obtain b1 h1 where r: "retire_plab c b h = (b1, h1)" by (cases "retire_plab c b h")
  obtain buf act h2 where a: "allocate_new_plab c m w (set_plab (Some b1) h1) = ((buf, act), h2)"
    by (metis surj_pair)
  have "\<not> allow_plab_promotions (tld h1)" using retire_plab_allow [of c b h] r off by simp
  then have "\<not> allow_plab_promotions (tld (set_plab (Some b1) h1))" by (simp add: set_plab_def)
  from allocate_new_plab_keeps_disabled [OF frame this, of m w]
  have h2: "\<not> allow_plab_promotions (tld h2)" using a by simp
  show ?thesis
    using run h2 unfolding replace_plab_unfold [OF r a]
    by (auto simp: Let_def thread_data_setters split: if_splits option.splits prod.splits)
qed

lemma allocate_from_plab_slow_keeps_disabled:
  assumes run: "allocate_from_plab_slow c cfg sz ip h = Inr (obj, h')"
      and frame: "never_enables_promotions c" and off: "\<not> allow_plab_promotions (tld h)"
  shows "\<not> allow_plab_promotions (tld h')"
proof -
  define cur where "cur = (if plab_size (tld h) = 0 then plab_min_size cfg else plab_size (tld h))"
  let ?hs = "set_plab_size (min (cur * 2) (plab_max_size cfg)) h"
  have hs: "\<not> allow_plab_promotions (tld ?hs)" using off by (simp add: set_plab_size_def)
  note u = allocate_from_plab_slow_unfold [OF cur_def]
  show ?thesis
  proof (cases "cur < sz")
    case True
    then show ?thesis using run hs unfolding u by auto
  next
    case False
    show ?thesis
    proof (cases "plab (tld h)")
      case None
      then show ?thesis using run False unfolding u by simp
    next
      case (Some b)
      show ?thesis
      proof (cases "words_remaining b < plab_min_size cfg")
        case True
        then have "replace_plab c cfg sz ip
                     (if sz > plab_min_size cfg then align_up sz (card_size_in_words cfg)
                      else plab_min_size cfg) cur b ?hs = Inr (obj, h')"
          using run False Some unfolding u by simp
        from replace_plab_keeps_disabled [OF this frame hs] show ?thesis .
      next
        case F2: False
        then show ?thesis using run False Some hs unfolding u by auto
      qed
    qed
  qed
qed

lemma allocate_from_plab_keeps_disabled:
  assumes run: "allocate_from_plab c cfg sz ip h = Inr (obj, h')"
      and frame: "never_enables_promotions c" and off: "\<not> allow_plab_promotions (tld h)"
  shows "\<not> allow_plab_promotions (tld h')"
proof (cases "plab (tld h)")
  case None
  then show ?thesis using run off by (simp add: allocate_from_plab_def)
next
  case (Some b)
  show ?thesis
  proof (cases ip)
    case True
    then show ?thesis using run off Some by (simp add: allocate_from_plab_def)
  next
    case False
    obtain o1 b1 where pa: "plab_allocate sz b = (o1, b1)" by (cases "plab_allocate sz b")
    let ?h1 = "set_plab (Some b1) h"
    have h1: "\<not> allow_plab_promotions (tld ?h1)" using off by (simp add: set_plab_def)
    show ?thesis
    proof (cases "o1 = 0 \<and> words_remaining b1 < plab_min_size cfg")
      case True
      then obtain o2 where "allocate_from_plab_slow c cfg sz ip ?h1 = Inr (o2, h')"
        using run Some False pa
        by (auto simp: allocate_from_plab_def split: sum.splits if_splits)
      from allocate_from_plab_slow_keeps_disabled [OF this frame h1] show ?thesis .
    next
      case F: False
      then have "h' = ?h1"
        using run Some False pa
        by (auto simp: allocate_from_plab_def split: sum.splits if_splits)
      then show ?thesis using h1 by simp
    qed
  qed
qed

lemma later_allocations_disabled:
  assumes "never_enables_promotions c"
  shows "\<not> allow_plab_promotions (tld h) \<Longrightarrow> later_allocations c cfg calls h = Inr (objs, h')
         \<Longrightarrow> \<not> allow_plab_promotions (tld h') \<and> length objs = length calls \<and>
             (\<forall>i < length calls. snd (calls ! i) \<longrightarrow> objs ! i = 0)"
proof (induction calls arbitrary: h objs)
  case Nil
  then show ?case by simp
next
  case (Cons call calls)
  obtain sz ip where call: "call = (sz, ip)" by (cases call)
  from Cons.prems(2) obtain obj h1 rest where
    first: "allocate_from_plab c cfg sz ip h = Inr (obj, h1)" and
    later: "later_allocations c cfg calls h1 = Inr (rest, h')" and
    objs: "objs = obj # rest"
    unfolding call by (auto split: sum.splits)
  have off1: "\<not> allow_plab_promotions (tld h1)"
    using allocate_from_plab_keeps_disabled [OF first assms Cons.prems(1)] .
  have null: "ip \<longrightarrow> obj = 0"
    using first allocate_from_plab_fails_fast [OF Cons.prems(1), of c cfg sz] by auto
  from Cons.IH [OF off1 later] have
    ih: "\<not> allow_plab_promotions (tld h')" "length rest = length calls"
        "\<forall>i < length calls. snd (calls ! i) \<longrightarrow> rest ! i = 0"
    by auto
  have "\<forall>i < length (call # calls). snd ((call # calls) ! i) \<longrightarrow> objs ! i = 0"
  proof (intro allI impI)
    fix i assume "i < length (call # calls)" "snd ((call # calls) ! i)"
    then show "objs ! i = 0"
      using null ih(3) objs call by (cases i) auto
  qed
  then show ?case using ih(1,2) objs by simp
qed

text \<open>
  C7, as written: whenever the request for a replacement buffer cannot be satisfied at
  the minimum acceptable size, promotions are disabled for the thread, permanently for
  the rest of the cycle. It fails twice. For an object larger than the configured
  minimum buffer size (100 words, minimum acceptable size 128 words) the request
  (128, 128) is refused, the call answers null, and promotions are still allowed. And
  the flag that a refusal at the configured minimum switches off is written by the
  shared allocator as well: with an allocator that refuses the first request and grants
  the later ones, allowing promotions as it grants, an object of 16 words is refused and
  promotions are switched off; then an evacuation of 16 words gets a new buffer (at
  16384) and the promotion of 16 words that follows succeeds (at 16400).
\<close>

theorem failed_request_keeps_promotions:
  "result_value (allocate_from_plab_slow failing_collab example_config 100 True example_heap)
     = Some 0 \<and>
   map_option (new_events example_heap)
     (result_state (allocate_from_plab_slow failing_collab example_config 100 True example_heap))
     = Some [Unexpend_Promoted 352, Register_Object_Without_Lock 4150,
             Allocate_Memory (For_PLAB 128 128)] \<and>
   map_option (\<lambda>s. allow_plab_promotions (tld s))
     (result_state (allocate_from_plab_slow failing_collab example_config 100 True example_heap))
     = Some True \<and>
   result_value (allocate_from_plab_slow regranting_collab example_config 16 True example_heap)
     = Some 0 \<and>
   map_option (new_events example_heap)
     (result_state (allocate_from_plab_slow regranting_collab example_config 16 True example_heap))
     = Some [Unexpend_Promoted 352, Register_Object_Without_Lock 4150,
             Allocate_Memory (For_PLAB 64 128)] \<and>
   map_option (\<lambda>s. allow_plab_promotions (tld s))
     (result_state (allocate_from_plab_slow regranting_collab example_config 16 True example_heap))
     = Some False \<and>
   result_value
     (case allocate_from_plab_slow regranting_collab example_config 16 True example_heap of
        Inl f \<Rightarrow> Inl f
      | Inr (obj, h1) \<Rightarrow>
          later_allocations regranting_collab example_config [(16, False), (16, True)] h1)
     = Some [16384, 16400]"
  by (simp add: result_state_def result_value_def new_events_def buffer_manager_defs plab_defs
      thread_data_setters align_up_def is_allocate_memory_def
      example_heap_def example_thread_data_def example_plab_def failing_collab_def
      regranting_collab_def Let_def)

text \<open>
  C7, amended: in \<^verbatim>\<open>allocate_from_plab_slow\<close>, when a replacement buffer is requested
  (the requested size holds the object and the current buffer has less than the
  configured minimum left): if the request is refused and the minimum acceptable size is
  the configured minimum buffer size, the call answers null with promotions from the
  buffer disabled for the thread; they stay disabled over every sequence of later
  allocations from the buffer, and each promotion among them answers null, as long as
  the shared allocator does not allow them again (nothing in the file does); a promotion
  allocation in a state where they are disabled answers null at once and leaves the
  state as it is. If the request is refused above the configured minimum, the call
  answers null and leaves the promotion flag as the allocator left it. If the request is
  granted, retries are enabled when the call returns.
\<close>

theorem slow_path_replacement_outcome:
  assumes cur: "cur = (if plab_size (tld h) = 0 then plab_min_size cfg else plab_size (tld h))"
      and min_size: "min_size = (if sz > plab_min_size cfg
                                 then align_up sz (card_size_in_words cfg) else plab_min_size cfg)"
      and fits: "\<not> cur < sz"
      and buffer: "plab (tld h) = Some b" "words_remaining b < plab_min_size cfg"
      and retire: "retire_plab c b (set_plab_size (min (cur * 2) (plab_max_size cfg)) h) = (b1, h1)"
      and request: "allocate_new_plab c min_size cur (set_plab (Some b1) h1)
                      = ((plab_buf, actual_size), h2)"
  shows "(plab_buf = 0 \<and> min_size = plab_min_size cfg \<longrightarrow>
            allocate_from_plab_slow c cfg sz is_promotion h = Inr (0, disable_plab_promotions h2) \<and>
            \<not> allow_plab_promotions (tld (disable_plab_promotions h2)) \<and>
            (never_enables_promotions c \<longrightarrow>
               (\<forall>calls objs h'.
                  later_allocations c cfg calls (disable_plab_promotions h2) = Inr (objs, h') \<longrightarrow>
                  \<not> allow_plab_promotions (tld h') \<and> length objs = length calls \<and>
                  (\<forall>i < length calls. snd (calls ! i) \<longrightarrow> objs ! i = 0)))) \<and>
         (\<forall>s sz'. \<not> allow_plab_promotions (tld s) \<longrightarrow>
            allocate_from_plab c cfg sz' True s = Inr (0, s)) \<and>
         (plab_buf = 0 \<and> min_size \<noteq> plab_min_size cfg \<longrightarrow>
            allocate_from_plab_slow c cfg sz is_promotion h = Inr (0, h2)) \<and>
         (plab_buf \<noteq> 0 \<longrightarrow>
            (\<forall>obj h'. allocate_from_plab_slow c cfg sz is_promotion h = Inr (obj, h')
               \<longrightarrow> plab_retries_enabled (tld h')))"
proof -
  let ?hs = "set_plab_size (min (cur * 2) (plab_max_size cfg)) h"
  have slow: "allocate_from_plab_slow c cfg sz is_promotion h =
                replace_plab c cfg sz is_promotion min_size cur b ?hs"
    unfolding allocate_from_plab_slow_unfold [OF cur] min_size using fits buffer by simp
  note rp = replace_plab_unfold [OF retire request, of cfg sz is_promotion]
  have off: "\<not> allow_plab_promotions (tld (disable_plab_promotions h2))"
    by (simp add: disable_plab_promotions_def)
  have fail: "plab_buf = 0 \<Longrightarrow>
               allocate_from_plab_slow c cfg sz is_promotion h =
                 (if min_size = plab_min_size cfg
                  then Inr (0, disable_plab_promotions h2) else Inr (0, h2))"
    by (simp only: slow rp refl if_True)
  have stays: "never_enables_promotions c \<longrightarrow>
               (\<forall>calls objs h'.
                  later_allocations c cfg calls (disable_plab_promotions h2) = Inr (objs, h') \<longrightarrow>
                  \<not> allow_plab_promotions (tld h') \<and> length objs = length calls \<and>
                  (\<forall>i < length calls. snd (calls ! i) \<longrightarrow> objs ! i = 0))"
    using later_allocations_disabled [OF _ off] by blast
  have a: "plab_buf = 0 \<and> min_size = plab_min_size cfg \<longrightarrow>
            allocate_from_plab_slow c cfg sz is_promotion h = Inr (0, disable_plab_promotions h2) \<and>
            \<not> allow_plab_promotions (tld (disable_plab_promotions h2)) \<and>
            (never_enables_promotions c \<longrightarrow>
               (\<forall>calls objs h'.
                  later_allocations c cfg calls (disable_plab_promotions h2) = Inr (objs, h') \<longrightarrow>
                  \<not> allow_plab_promotions (tld h') \<and> length objs = length calls \<and>
                  (\<forall>i < length calls. snd (calls ! i) \<longrightarrow> objs ! i = 0)))"
    using off fail stays by auto
  have fast: "\<forall>s sz'. \<not> allow_plab_promotions (tld s) \<longrightarrow>
            allocate_from_plab c cfg sz' True s = Inr (0, s)"
    using allocate_from_plab_fails_fast by blast
  have b: "plab_buf = 0 \<and> min_size \<noteq> plab_min_size cfg \<longrightarrow>
            allocate_from_plab_slow c cfg sz is_promotion h = Inr (0, h2)"
    using fail by auto
  have c: "plab_buf \<noteq> 0 \<longrightarrow>
            (\<forall>obj h'. allocate_from_plab_slow c cfg sz is_promotion h = Inr (obj, h')
               \<longrightarrow> plab_retries_enabled (tld h'))"
    unfolding slow using replace_plab_enables_retries [OF retire request] by blast
  show ?thesis using a fast b c by blast
qed

text \<open>
  C7, amended, on three runs: an object of 16 words refused, followed by three later
  allocations; an object of 100 words refused; an object of 16 words granted.
\<close>

theorem slow_path_replacement_outcome_witness:
  "map_option (\<lambda>s. allow_plab_promotions (tld s))
     (result_state (allocate_from_plab_slow failing_collab example_config 16 True example_heap))
     = Some False \<and>
   never_enables_promotions failing_collab \<and>
   map_option (\<lambda>s. allow_plab_promotions (tld s))
     (result_state
        (case allocate_from_plab_slow failing_collab example_config 16 True example_heap of
           Inl f \<Rightarrow> Inl f
         | Inr (obj, s) \<Rightarrow>
             later_allocations failing_collab example_config
               [(16, True), (8, False), (8, True)] s))
     = Some False \<and>
   map_option (\<lambda>objs. (objs ! 0, objs ! 2))
     (result_value
        (case allocate_from_plab_slow failing_collab example_config 16 True example_heap of
           Inl f \<Rightarrow> Inl f
         | Inr (obj, s) \<Rightarrow>
             later_allocations failing_collab example_config
               [(16, True), (8, False), (8, True)] s))
     = Some (0, 0) \<and>
   result_value (allocate_from_plab_slow failing_collab example_config 100 True example_heap)
     = Some 0 \<and>
   map_option (\<lambda>s. plab_retries_enabled (tld s))
     (result_state (allocate_from_plab_slow granting_collab example_config 16 True
                      (disable_plab_retries example_heap)))
     = Some True"
proof -
  let ?hs = "set_plab_size (min (128 * 2) (plab_max_size example_config)) example_heap"
  let ?R = "retire_plab failing_collab example_plab ?hs"
  have cur: "(128 :: size_t) = (if plab_size (tld example_heap) = 0
               then plab_min_size example_config else plab_size (tld example_heap))"
    by (simp add: example_heap_def example_thread_data_def)
  have buffer: "plab (tld example_heap) = Some example_plab"
    "words_remaining example_plab < plab_min_size example_config"
    by (simp_all add: example_heap_def example_thread_data_def example_plab_def
        words_remaining_def)
  have retire: "?R = (fst ?R, snd ?R)" by simp
  \<comment> \<open>a small object: the request is made at the configured minimum and fails\<close>
  let ?A = "allocate_new_plab failing_collab 64 128 (set_plab (Some (fst ?R)) (snd ?R))"
  have min16: "(64 :: size_t) = (if (16 :: size_t) > plab_min_size example_config
      then align_up 16 (card_size_in_words example_config) else plab_min_size example_config)"
    by simp
  have fits16: "\<not> (128 :: size_t) < 16" by simp
  have reqA: "?A = ((0, 0), snd ?A)"
    using failing_collab_request [of 64 128 "set_plab (Some (fst ?R)) (snd ?R)"]
    by (simp add: prod_eq_iff)
  note tA = slow_path_replacement_outcome [OF cur min16 fits16 buffer retire reqA,
        where is_promotion = True]
  have runA: "allocate_from_plab_slow failing_collab example_config 16 True example_heap =
          Inr (0, disable_plab_promotions (snd ?A))"
    using tA by simp
  have frame: "never_enables_promotions failing_collab"
    by (simp add: never_enables_promotions_def failing_collab_def)
  let ?calls = "[(16, True), (8, False), (8, True)] :: (size_t \<times> bool) list"
  have "\<exists>objs h'. later_allocations failing_collab example_config ?calls
                    (disable_plab_promotions (snd ?A)) = Inr (objs, h')"
    by (simp add: buffer_manager_defs plab_defs thread_data_setters
        example_heap_def example_thread_data_def example_plab_def failing_collab_def Let_def)
  then obtain objs h' where later:
    "later_allocations failing_collab example_config ?calls
       (disable_plab_promotions (snd ?A)) = Inr (objs, h')"
    by blast
  have stays: "\<not> allow_plab_promotions (tld h') \<and> length objs = length ?calls \<and>
               (\<forall>i < length ?calls. snd (?calls ! i) \<longrightarrow> objs ! i = 0)"
  proof -
    have k: "(0 :: addr) = 0 \<and> (64 :: size_t) = plab_min_size example_config" by simp
    from tA k frame have
      "\<forall>calls objs h'.
          later_allocations failing_collab example_config calls
            (disable_plab_promotions (snd ?A)) = Inr (objs, h') \<longrightarrow>
          \<not> allow_plab_promotions (tld h') \<and> length objs = length calls \<and>
          (\<forall>i < length calls. snd (calls ! i) \<longrightarrow> objs ! i = 0)"
      by blast
    then show ?thesis using later by blast
  qed
  then have nulls: "objs ! 0 = 0" "objs ! 2 = 0" by auto
  have both: "(case allocate_from_plab_slow failing_collab example_config 16 True example_heap of
           Inl f \<Rightarrow> Inl f
         | Inr (obj, s) \<Rightarrow> later_allocations failing_collab example_config ?calls s)
        = Inr (objs, h')"
    by (simp only: runA sum.case prod.case later)
  have a2: "map_option (\<lambda>s. allow_plab_promotions (tld s))
     (result_state
        (case allocate_from_plab_slow failing_collab example_config 16 True example_heap of
           Inl f \<Rightarrow> Inl f
         | Inr (obj, s) \<Rightarrow> later_allocations failing_collab example_config ?calls s))
     = Some False"
    unfolding both using stays by (simp add: result_state_def)
  have a3: "map_option (\<lambda>objs. (objs ! 0, objs ! 2))
     (result_value
        (case allocate_from_plab_slow failing_collab example_config 16 True example_heap of
           Inl f \<Rightarrow> Inl f
         | Inr (obj, s) \<Rightarrow> later_allocations failing_collab example_config ?calls s))
     = Some (0, 0)"
    unfolding both using nulls by (simp add: result_value_def)
  from runA have a: "map_option (\<lambda>s. allow_plab_promotions (tld s))
     (result_state (allocate_from_plab_slow failing_collab example_config 16 True example_heap))
     = Some False"
    by (simp add: result_state_def disable_plab_promotions_def)
  \<comment> \<open>a larger object: the request fails above the configured minimum\<close>
  let ?B = "allocate_new_plab failing_collab 128 128 (set_plab (Some (fst ?R)) (snd ?R))"
  have min100: "(128 :: size_t) = (if (100 :: size_t) > plab_min_size example_config
      then align_up 100 (card_size_in_words example_config) else plab_min_size example_config)"
    by (simp add: align_up_def)
  have fits100: "\<not> (128 :: size_t) < 100" by simp
  have reqB: "?B = ((0, 0), snd ?B)"
    using failing_collab_request [of 128 128 "set_plab (Some (fst ?R)) (snd ?R)"]
    by (simp add: prod_eq_iff)
  have "allocate_from_plab_slow failing_collab example_config 100 True example_heap =
          Inr (0, snd ?B)"
    using slow_path_replacement_outcome [OF cur min100 fits100 buffer retire reqB,
        where is_promotion = True]
    by simp
  then have b: "result_value
      (allocate_from_plab_slow failing_collab example_config 100 True example_heap) = Some 0"
    by (simp add: result_value_def)
  \<comment> \<open>a request that is granted\<close>
  let ?g = "disable_plab_retries example_heap"
  let ?gs = "set_plab_size (min (128 * 2) (plab_max_size example_config)) ?g"
  let ?S = "retire_plab granting_collab example_plab ?gs"
  let ?C = "allocate_new_plab granting_collab 64 128 (set_plab (Some (fst ?S)) (snd ?S))"
  have curg: "(128 :: size_t) = (if plab_size (tld ?g) = 0
               then plab_min_size example_config else plab_size (tld ?g))"
    by (simp add: example_heap_def example_thread_data_def disable_plab_retries_def)
  have bufferg: "plab (tld ?g) = Some example_plab"
    by (simp add: example_heap_def example_thread_data_def disable_plab_retries_def)
  have retireg: "?S = (fst ?S, snd ?S)" by simp
  have reqC: "?C = ((16384, 128), snd ?C)"
    using granting_collab_request [of 64 128 "set_plab (Some (fst ?S)) (snd ?S)"]
    by (simp add: prod_eq_iff)
  have ok: "\<exists>obj h'. allocate_from_plab_slow granting_collab example_config 16 True ?g
              = Inr (obj, h')"
    by (simp add: buffer_manager_defs plab_defs thread_data_setters
        example_heap_def example_thread_data_def example_plab_def granting_collab_def Let_def)
  then obtain obj h' where run:
    "allocate_from_plab_slow granting_collab example_config 16 True ?g = Inr (obj, h')"
    by blast
  have nz: "(16384 :: size_t) \<noteq> 0" by simp
  have "plab_retries_enabled (tld h')"
    using slow_path_replacement_outcome [OF curg min16 fits16 bufferg buffer(2) retireg reqC,
        where is_promotion = True] nz run
    by blast
  then have c: "map_option (\<lambda>s. plab_retries_enabled (tld s))
     (result_state (allocate_from_plab_slow granting_collab example_config 16 True ?g))
     = Some True"
    by (simp add: run result_state_def)
  show ?thesis using a frame a2 a3 b c by (intro conjI)
qed

subsection \<open>Evacuation: no copy could be allocated\<close>

lemmas evacuation_defs =
  resolve_forwarded_def try_update_forwardee_def increase_object_age_def get_object_age_def
  copy_object_def mark_set_age_def mark_age_def

lemmas evacuate_defs =
  try_evacuate_object_def evac_lab_alloc_def evac_allocate_old_def evac_allocate_young_def
  evac_shared_alloc_def evac_alloc_failed_def evac_out_of_memory_def evac_install_def
  evac_copy_def evac_lost_race_def allocate_from_gclab_call_def region_is_young_def region_is_old_def

lemma evac_out_of_memory_eq:
  "evac_out_of_memory p sz h =
     (resolve_forwarded p h,
      log_event Handle_Out_Of_Memory_During_Evacuation
        (log_event (Handle_Alloc_Failure_Evac sz) h))"
  by (simp add: evac_out_of_memory_def Let_def resolve_forwarded_def)

lemma try_evacuate_object_unfold:
  assumes "evac_lab_alloc c cfg (obj_size (objects h p)) target_gen
             (target_gen = OLD_GENERATION \<and> region_is_young from_region) h
           = Inr (copy, has_plab, h1)"
      and "evac_shared_alloc c cfg (obj_size (objects h p)) target_gen
             (target_gen = OLD_GENERATION \<and> region_is_young from_region) has_plab copy h1
           = (copy1, alloc_from_lab, h2)"
  shows "try_evacuate_object c cfg p from_region target_gen h =
           (if copy1 = 0
            then Inr (evac_alloc_failed p (obj_size (objects h p)) target_gen from_region h2)
            else evac_install cfg p copy1 (obj_size (objects h p)) target_gen from_region
                   (target_gen = OLD_GENERATION \<and> region_is_young from_region)
                   alloc_from_lab h2)"
  by (simp add: try_evacuate_object_def Let_def assms)

lemmas run_defs =
  evacuate_defs evacuation_defs buffer_manager_defs plab_defs thread_data_setters
  example_heap_def example_thread_data_def example_plab_def example_gclab_def
  example_young_region_def example_old_region_def Let_def

text \<open>
  C4: when \<^verbatim>\<open>try_evacuate_object\<close> has no copy after the buffer and the shared
  allocator (state \<open>h2\<close>): with target old and a young source region it signals a
  failed promotion and answers null, and that signal is the only call it makes, so the
  out-of-memory protocol is not invoked; with target old and an old source region it
  signals a failed evacuation, then the allocation failure and the out-of-memory
  protocol, and answers the forwarding target of the object; with target young it
  signals the allocation failure and the out-of-memory protocol and answers the
  forwarding target of the object.
\<close>

theorem try_evacuate_object_allocation_failure:
  assumes sz: "sz = obj_size (objects h p)"
      and ip: "is_promotion = (target_gen = OLD_GENERATION \<and> region_is_young from_region)"
      and lab: "evac_lab_alloc c cfg sz target_gen is_promotion h = Inr (copy, has_plab, h1)"
      and shared: "evac_shared_alloc c cfg sz target_gen is_promotion has_plab copy h1
                     = (0, alloc_from_lab, h2)"
  shows "(target_gen = OLD_GENERATION \<and> region_is_young from_region \<longrightarrow>
            try_evacuate_object c cfg p from_region target_gen h
              = Inr (0, log_event (Handle_Failed_Promotion sz) h2)) \<and>
         (target_gen = OLD_GENERATION \<and> \<not> region_is_young from_region \<longrightarrow>
            try_evacuate_object c cfg p from_region target_gen h
              = Inr (resolve_forwarded p h2,
                     log_event Handle_Out_Of_Memory_During_Evacuation
                       (log_event (Handle_Alloc_Failure_Evac sz)
                          (log_event Handle_Failed_Evacuation h2)))) \<and>
         (target_gen = YOUNG_GENERATION \<longrightarrow>
            try_evacuate_object c cfg p from_region target_gen h
              = Inr (resolve_forwarded p h2,
                     log_event Handle_Out_Of_Memory_During_Evacuation
                       (log_event (Handle_Alloc_Failure_Evac sz) h2)))"
proof -
  have eq: "try_evacuate_object c cfg p from_region target_gen h =
          Inr (evac_alloc_failed p sz target_gen from_region h2)"
    using try_evacuate_object_unfold [OF lab [unfolded sz ip] shared [unfolded sz ip]]
    by (simp add: sz)
  have same: "resolve_forwarded p (log_event e h2) = resolve_forwarded p h2" for e
    by (simp add: resolve_forwarded_def)
  show ?thesis
    unfolding eq by (simp add: evac_alloc_failed_def evac_out_of_memory_eq same)
qed

text \<open>
  C4 with allocators that always refuse: a promotion, an evacuation from old to old, an
  evacuation within young, of an object of 16 words at address 4242.
\<close>

theorem try_evacuate_object_allocation_failure_witness:
  "result_value (try_evacuate_object failing_collab example_config 4242 example_young_region
      OLD_GENERATION example_heap) = Some 0 \<and>
   map_option (\<lambda>s. last (events s))
     (result_state (try_evacuate_object failing_collab example_config 4242 example_young_region
        OLD_GENERATION example_heap)) = Some (Handle_Failed_Promotion 16) \<and>
   result_value (try_evacuate_object failing_collab example_config 4242 example_old_region
      OLD_GENERATION example_heap) = Some 4242 \<and>
   map_option (\<lambda>s. drop (length (events s) - 3) (events s))
     (result_state (try_evacuate_object failing_collab example_config 4242 example_old_region
        OLD_GENERATION example_heap))
     = Some [Handle_Failed_Evacuation, Handle_Alloc_Failure_Evac 16,
             Handle_Out_Of_Memory_During_Evacuation] \<and>
   result_value (try_evacuate_object failing_collab example_config 4242 example_young_region
      YOUNG_GENERATION example_heap) = Some 4242 \<and>
   map_option (\<lambda>s. drop (length (events s) - 2) (events s))
     (result_state (try_evacuate_object failing_collab example_config 4242 example_young_region
        YOUNG_GENERATION example_heap))
     = Some [Handle_Alloc_Failure_Evac 16, Handle_Out_Of_Memory_During_Evacuation]"
proof -
  have sz: "(16 :: size_t) = obj_size (objects example_heap 4242)"
    by (simp add: example_heap_def)
  have young: "region_is_young example_young_region" "\<not> region_is_young example_old_region"
    by (simp_all add: region_is_young_def example_young_region_def example_old_region_def)
  \<comment> \<open>a promotion\<close>
  have ip1: "True = (OLD_GENERATION = OLD_GENERATION \<and> region_is_young example_young_region)"
    using young by simp
  have "\<exists>copy hp h1 afl h2.
          evac_lab_alloc failing_collab example_config 16 OLD_GENERATION True example_heap
            = Inr (copy, hp, h1) \<and>
          evac_shared_alloc failing_collab example_config 16 OLD_GENERATION True hp copy h1
            = (0, afl, h2)"
    by (simp add: run_defs failing_collab_def; blast)
  then obtain copy1 hp1 h11 afl1 h12 where
    lab1: "evac_lab_alloc failing_collab example_config 16 OLD_GENERATION True example_heap
            = Inr (copy1, hp1, h11)" and
    sh1: "evac_shared_alloc failing_collab example_config 16 OLD_GENERATION True hp1 copy1 h11
            = (0, afl1, h12)"
    by blast
  have r1: "try_evacuate_object failing_collab example_config 4242 example_young_region
      OLD_GENERATION example_heap = Inr (0, log_event (Handle_Failed_Promotion 16) h12)"
    using try_evacuate_object_allocation_failure [OF sz ip1 lab1 sh1] young by blast
  \<comment> \<open>an evacuation from old to old\<close>
  have ip2: "False = (OLD_GENERATION = OLD_GENERATION \<and> region_is_young example_old_region)"
    using young by simp
  have "\<exists>copy hp h1 afl h2.
          evac_lab_alloc failing_collab example_config 16 OLD_GENERATION False example_heap
            = Inr (copy, hp, h1) \<and>
          evac_shared_alloc failing_collab example_config 16 OLD_GENERATION False hp copy h1
            = (0, afl, h2) \<and> resolve_forwarded 4242 h2 = 4242"
    by (simp add: run_defs failing_collab_def; blast)
  then obtain copy2 hp2 h21 afl2 h22 where
    lab2: "evac_lab_alloc failing_collab example_config 16 OLD_GENERATION False example_heap
            = Inr (copy2, hp2, h21)" and
    sh2: "evac_shared_alloc failing_collab example_config 16 OLD_GENERATION False hp2 copy2 h21
            = (0, afl2, h22)" and
    f2: "resolve_forwarded 4242 h22 = 4242"
    by blast
  have r2: "try_evacuate_object failing_collab example_config 4242 example_old_region
      OLD_GENERATION example_heap
        = Inr (resolve_forwarded 4242 h22,
               log_event Handle_Out_Of_Memory_During_Evacuation
                 (log_event (Handle_Alloc_Failure_Evac 16)
                    (log_event Handle_Failed_Evacuation h22)))"
    using try_evacuate_object_allocation_failure [OF sz ip2 lab2 sh2] young by blast
  \<comment> \<open>an evacuation within young\<close>
  have ip3: "False = (YOUNG_GENERATION = OLD_GENERATION \<and> region_is_young example_young_region)"
    by simp
  have "\<exists>copy hp h1 afl h2.
          evac_lab_alloc failing_collab example_config 16 YOUNG_GENERATION False example_heap
            = Inr (copy, hp, h1) \<and>
          evac_shared_alloc failing_collab example_config 16 YOUNG_GENERATION False hp copy h1
            = (0, afl, h2) \<and> resolve_forwarded 4242 h2 = 4242"
    by (simp add: run_defs failing_collab_def; blast)
  then obtain copy3 hp3 h31 afl3 h32 where
    lab3: "evac_lab_alloc failing_collab example_config 16 YOUNG_GENERATION False example_heap
            = Inr (copy3, hp3, h31)" and
    sh3: "evac_shared_alloc failing_collab example_config 16 YOUNG_GENERATION False hp3 copy3 h31
            = (0, afl3, h32)" and
    f3: "resolve_forwarded 4242 h32 = 4242"
    by blast
  have r3: "try_evacuate_object failing_collab example_config 4242 example_young_region
      YOUNG_GENERATION example_heap
        = Inr (resolve_forwarded 4242 h32,
               log_event Handle_Out_Of_Memory_During_Evacuation
                 (log_event (Handle_Alloc_Failure_Evac 16) h32))"
    using try_evacuate_object_allocation_failure [OF sz ip3 lab3 sh3] by blast
  show ?thesis
    unfolding r1 r2 r3 f2 f3 by (simp add: result_value_def result_state_def)
qed

subsection \<open>Evacuation: the decision to ask the shared allocator\<close>

lemma evac_lab_alloc_has_plab:
  assumes "evac_lab_alloc c cfg sz target_gen is_promotion h = Inr (copy, has_plab, h1)"
      and "UseTLAB cfg"
  shows "has_plab = (target_gen = OLD_GENERATION \<and> plab (tld h) \<noteq> None)"
  using assms
  by (auto simp: evac_lab_alloc_def evac_allocate_old_def Let_def
      split: ShenandoahAffiliation.splits prod.splits sum.splits if_splits option.splits)

lemma evac_lost_race_events:
  "evac_lost_race cfg copy sz target_gen ip afl result h = Inr (r, h')
   \<Longrightarrow> \<exists>es. events h' = events h @ es"
  by (auto simp: evac_lost_race_def Let_def thread_data_setters
      split: if_splits ShenandoahAffiliation.splits option.splits)

lemma evac_copy_simps [simp]:
  "tld (evac_copy cfg p copy sz g r h) = tld h"
  "events (evac_copy cfg p copy sz g r h) =
     events h @ [Begin_Evacuation (sz * HeapWordSize cfg), Relativize_Stack_Chunk copy]"
  "is_aging_cycle (evac_copy cfg p copy sz g r h) = is_aging_cycle h"
  by (simp_all add: evac_copy_def Let_def evacuation_defs log_event_def)

lemma try_update_forwardee_simps [simp]:
  "tld (snd (try_update_forwardee p u h)) = tld h"
  "events (snd (try_update_forwardee p u h)) = events h"
  by (simp_all add: try_update_forwardee_def split: markWord.splits)

lemma evac_install_events:
  assumes "evac_install cfg p copy sz target_gen from_region ip afl h = Inr (r, h')"
  shows "\<exists>es. events h' = events h @ es"
proof -
  let ?h4 = "evac_copy cfg p copy sz target_gen from_region h"
  obtain result h5 where cas: "try_update_forwardee p copy ?h4 = (result, h5)"
    by (cases "try_update_forwardee p copy ?h4")
  have e5: "events h5 = events h @ [Begin_Evacuation (sz * HeapWordSize cfg),
                                    Relativize_Stack_Chunk copy]"
    using try_update_forwardee_simps(2) [of p copy ?h4] cas by simp
  show ?thesis
  proof (cases "result = copy")
    case True
    then show ?thesis using assms cas e5
      by (auto simp: evac_install_def Let_def split: if_splits)
  next
    case False
    then have "evac_lost_race cfg copy sz target_gen ip afl result h5 = Inr (r, h')"
      using assms cas by (simp add: evac_install_def Let_def)
    from evac_lost_race_events [OF this] show ?thesis using e5 by auto
  qed
qed

lemma evac_alloc_failed_events:
  "\<exists>es. events (snd (evac_alloc_failed p sz target_gen from_region h)) = events h @ es"
  by (simp add: evac_alloc_failed_def evac_out_of_memory_eq)

lemma evac_install_shared_returns:
  "\<exists>r h'. evac_install cfg p copy sz target_gen from_region ip False h = Inr (r, h')"
proof -
  let ?h4 = "evac_copy cfg p copy sz target_gen from_region h"
  obtain result h5 where cas: "try_update_forwardee p copy ?h4 = (result, h5)"
    by (cases "try_update_forwardee p copy ?h4")
  show ?thesis
    using cas by (simp add: evac_install_def evac_lost_race_def Let_def)
qed

theorem shared_allocation_decision:
  assumes sz: "sz = obj_size (objects h p)"
      and ip: "is_promotion = (target_gen = OLD_GENERATION \<and> region_is_young from_region)"
      and tlab: "UseTLAB cfg"
      and lab: "evac_lab_alloc c cfg sz target_gen is_promotion h = Inr (0, has_plab, h1)"
  shows "has_plab = (target_gen = OLD_GENERATION \<and> plab (tld h) \<noteq> None) \<and>
         (is_promotion \<and> has_plab \<and> sz \<le> PLAB_min_size cfg \<longrightarrow>
            try_evacuate_object c cfg p from_region target_gen h
              = Inr (0, log_event (Handle_Failed_Promotion sz) h1)) \<and>
         (\<not> (is_promotion \<and> has_plab \<and> sz \<le> PLAB_min_size cfg) \<longrightarrow>
            (\<exists>res h' es.
               try_evacuate_object c cfg p from_region target_gen h = Inr (res, h') \<and>
               new_events h1 h'
                 = Allocate_Memory (For_Shared_GC sz target_gen is_promotion) # es))"
proof -
  have hp: "has_plab = (target_gen = OLD_GENERATION \<and> plab (tld h) \<noteq> None)"
    using evac_lab_alloc_has_plab [OF lab tlab] .
  have excluded: "is_promotion \<and> has_plab \<and> sz \<le> PLAB_min_size cfg \<longrightarrow>
            try_evacuate_object c cfg p from_region target_gen h
              = Inr (0, log_event (Handle_Failed_Promotion sz) h1)"
  proof
    assume a: "is_promotion \<and> has_plab \<and> sz \<le> PLAB_min_size cfg"
    then have "evac_shared_alloc c cfg sz target_gen is_promotion has_plab 0 h1 = (0, True, h1)"
      by (auto simp: evac_shared_alloc_def)
    from try_evacuate_object_allocation_failure [OF sz ip lab this] a ip
    show "try_evacuate_object c cfg p from_region target_gen h
              = Inr (0, log_event (Handle_Failed_Promotion sz) h1)"
      by blast
  qed
  have attempted: "\<not> (is_promotion \<and> has_plab \<and> sz \<le> PLAB_min_size cfg) \<longrightarrow>
            (\<exists>res h' es.
               try_evacuate_object c cfg p from_region target_gen h = Inr (res, h') \<and>
               new_events h1 h'
                 = Allocate_Memory (For_Shared_GC sz target_gen is_promotion) # es)"
  proof
    assume a: "\<not> (is_promotion \<and> has_plab \<and> sz \<le> PLAB_min_size cfg)"
    let ?req = "For_Shared_GC sz target_gen is_promotion"
    obtain copy1 act h2 where am: "allocate_memory_call c ?req h1 = ((copy1, act), h2)"
      by (metis surj_pair)
    have e2: "events h2 = events h1 @ [Allocate_Memory ?req]"
      using am by (auto simp: allocate_memory_call_def split: prod.splits)
    have sh: "evac_shared_alloc c cfg sz target_gen is_promotion has_plab 0 h1
                = (copy1, False, h2)"
      using a am by (auto simp: evac_shared_alloc_def not_le)
    note u = try_evacuate_object_unfold [OF lab [unfolded sz ip] sh [unfolded sz ip]]
    have "\<exists>res h'. try_evacuate_object c cfg p from_region target_gen h = Inr (res, h') \<and>
                   (\<exists>es. events h' = events h2 @ es)"
    proof (cases "copy1 = 0")
      case True
      let ?r = "evac_alloc_failed p (obj_size (objects h p)) target_gen from_region h2"
      have "try_evacuate_object c cfg p from_region target_gen h = Inr (fst ?r, snd ?r)"
        using True u by simp
      then show ?thesis using evac_alloc_failed_events by blast
    next
      case False
      obtain r h' where
        "evac_install cfg p copy1 (obj_size (objects h p)) target_gen from_region
           (target_gen = OLD_GENERATION \<and> region_is_young from_region) False h2 = Inr (r, h')"
        using evac_install_shared_returns by blast
      then show ?thesis using False u evac_install_events by (simp; blast)
    qed
    then obtain res h' es where
      run: "try_evacuate_object c cfg p from_region target_gen h = Inr (res, h')" and
      "events h' = events h1 @ (Allocate_Memory ?req # es)"
      using e2 by auto
    then have "new_events h1 h' = Allocate_Memory ?req # es" by (simp add: new_events_append)
    then show "\<exists>res h' es.
               try_evacuate_object c cfg p from_region target_gen h = Inr (res, h') \<and>
               new_events h1 h' = Allocate_Memory ?req # es"
      using run by blast
  qed
  show ?thesis using hp excluded attempted by blast
qed

text \<open>
  C3 with allocators that always refuse: a promotion of 8 words with 4 words left in the
  buffer is not passed to the shared allocator; a promotion of 16 words is.
\<close>

theorem shared_allocation_decision_witness:
  "result_value (try_evacuate_object failing_collab example_config 4242 example_young_region
      OLD_GENERATION small_heap) = Some 0 \<and>
   map_option (new_events small_heap)
     (result_state (try_evacuate_object failing_collab example_config 4242 example_young_region
        OLD_GENERATION small_heap))
     = Some [Unexpend_Promoted 352, Register_Object_Without_Lock 4156,
             Allocate_Memory (For_PLAB 64 128), Handle_Failed_Promotion 8] \<and>
   (\<exists>h'. result_state (try_evacuate_object failing_collab example_config 4242
        example_young_region OLD_GENERATION example_heap) = Some h' \<and>
      Allocate_Memory (For_Shared_GC 16 OLD_GENERATION True) \<in> set (events h'))"
proof -
  have young: "region_is_young example_young_region"
    by (simp add: region_is_young_def example_young_region_def)
  have ip: "True = (OLD_GENERATION = OLD_GENERATION \<and> region_is_young example_young_region)"
    using young by simp
  have tlab: "UseTLAB example_config" by simp
  \<comment> \<open>the excluded case: a promotion of 8 words with a buffer\<close>
  have sz8: "(8 :: size_t) = obj_size (objects small_heap 4242)"
    by (simp add: small_heap_def)
  have "\<exists>hp h1. evac_lab_alloc failing_collab example_config 8 OLD_GENERATION True small_heap
                  = Inr (0, hp, h1) \<and>
          new_events small_heap h1 = [Unexpend_Promoted 352, Register_Object_Without_Lock 4156,
             Allocate_Memory (For_PLAB 64 128)]"
    by (simp add: small_heap_def run_defs failing_collab_def new_events_def; blast)
  then obtain hp1 h1 where
    lab1: "evac_lab_alloc failing_collab example_config 8 OLD_GENERATION True small_heap
             = Inr (0, hp1, h1)" and
    ev1: "new_events small_heap h1 = [Unexpend_Promoted 352, Register_Object_Without_Lock 4156,
             Allocate_Memory (For_PLAB 64 128)]"
    by blast
  have small: "(8 :: size_t) \<le> PLAB_min_size example_config" by simp
  note d1 = shared_allocation_decision [OF sz8 ip tlab lab1]
  have hp1: "hp1" using d1 by (simp add: small_heap_def)
  have r1: "try_evacuate_object failing_collab example_config 4242 example_young_region
      OLD_GENERATION small_heap = Inr (0, log_event (Handle_Failed_Promotion 8) h1)"
    using d1 hp1 small by blast
  have e1: "new_events small_heap (log_event (Handle_Failed_Promotion 8) h1)
              = [Unexpend_Promoted 352, Register_Object_Without_Lock 4156,
                 Allocate_Memory (For_PLAB 64 128), Handle_Failed_Promotion 8]"
    using ev1 by (simp add: new_events_def small_heap_def example_heap_def)
  \<comment> \<open>a promotion of 16 words: the shared allocator is asked\<close>
  have sz16: "(16 :: size_t) = obj_size (objects example_heap 4242)"
    by (simp add: example_heap_def)
  have "\<exists>hp h1. evac_lab_alloc failing_collab example_config 16 OLD_GENERATION True example_heap
                  = Inr (0, hp, h1)"
    by (simp add: run_defs failing_collab_def; blast)
  then obtain hp2 h2 where
    lab2: "evac_lab_alloc failing_collab example_config 16 OLD_GENERATION True example_heap
             = Inr (0, hp2, h2)"
    by blast
  have big: "\<not> (16 :: size_t) \<le> PLAB_min_size example_config" by simp
  obtain res h' es where run2:
    "try_evacuate_object failing_collab example_config 4242 example_young_region
          OLD_GENERATION example_heap = Inr (res, h')" and
    "new_events h2 h' = Allocate_Memory (For_Shared_GC 16 OLD_GENERATION True) # es"
    using shared_allocation_decision [OF sz16 ip tlab lab2] big by blast
  then have "Allocate_Memory (For_Shared_GC 16 OLD_GENERATION True) \<in> set (events h')"
    unfolding new_events_def by (metis in_set_dropD list.set_intros(1))
  then have c: "\<exists>h'. result_state (try_evacuate_object failing_collab example_config 4242
        example_young_region OLD_GENERATION example_heap) = Some h' \<and>
      Allocate_Memory (For_Shared_GC 16 OLD_GENERATION True) \<in> set (events h')"
    by (simp add: run2 result_state_def)
  have a: "result_value (try_evacuate_object failing_collab example_config 4242
      example_young_region OLD_GENERATION small_heap) = Some 0"
    by (simp add: r1 result_value_def)
  have b: "map_option (new_events small_heap)
     (result_state (try_evacuate_object failing_collab example_config 4242 example_young_region
        OLD_GENERATION small_heap))
     = Some [Unexpend_Promoted 352, Register_Object_Without_Lock 4156,
             Allocate_Memory (For_PLAB 64 128), Handle_Failed_Promotion 8]"
    by (simp add: r1 result_state_def e1)
  show ?thesis using a b c by (intro conjI)
qed

subsection \<open>Evacuation: the mark word of a young object in a young cycle\<close>



subsection \<open>Evacuation: the age of a young copy\<close>

lemma allocate_from_gclab_call_frame [simp]:
  "objects (snd (allocate_from_gclab_call c sz h)) = objects h"
  "is_aging_cycle (snd (allocate_from_gclab_call c sz h)) = is_aging_cycle h"
  by (simp_all add: allocate_from_gclab_call_def log_event_def split: prod.splits)

lemma evac_allocate_young_frame:
  "objects (snd (evac_allocate_young c cfg sz h)) = objects h \<and>
   is_aging_cycle (snd (evac_allocate_young c cfg sz h)) = is_aging_cycle h"
proof -
  obtain copy h1 where a: "allocate_from_gclab_call c sz h = (copy, h1)"
    by (cases "allocate_from_gclab_call c sz h")
  have h1: "objects h1 = objects h" "is_aging_cycle h1 = is_aging_cycle h"
    using allocate_from_gclab_call_frame [of c sz h] a by simp_all
  let ?h2 = "set_gclab_size (PLAB_min_size cfg) h1"
  have h2: "objects ?h2 = objects h" "is_aging_cycle ?h2 = is_aging_cycle h"
    using h1 by (simp_all add: set_gclab_size_def)
  show ?thesis
    using h1 h2 allocate_from_gclab_call_frame [of c sz ?h2]
    by (simp add: evac_allocate_young_def a)
qed

lemma allocate_memory_call_frame [simp]:
  "objects (snd (allocate_memory_call c req h)) = objects h"
  "is_aging_cycle (snd (allocate_memory_call c req h)) = is_aging_cycle h"
  by (simp_all add: allocate_memory_call_def log_event_def split: prod.splits)

lemma evac_shared_alloc_frame:
  "objects (snd (snd (evac_shared_alloc c cfg sz g ip hp copy h))) = objects h \<and>
   is_aging_cycle (snd (snd (evac_shared_alloc c cfg sz g ip hp copy h))) = is_aging_cycle h"
proof -
  obtain r h1 where a: "allocate_memory_call c (For_Shared_GC sz g ip) h = (r, h1)"
    by (cases "allocate_memory_call c (For_Shared_GC sz g ip) h")
  have "objects h1 = objects h" "is_aging_cycle h1 = is_aging_cycle h"
    using allocate_memory_call_frame [of c "For_Shared_GC sz g ip" h] a by simp_all
  then show ?thesis
    by (simp add: evac_shared_alloc_def a split: prod.splits)
qed

lemma evac_install_young_age:
  assumes run: "evac_install cfg p copy sz YOUNG_GENERATION from_region ip afl h = Inr (res, h')"
      and aging: "is_aging_cycle h"
      and unforwarded: "\<forall>f. obj_mark (objects h p) \<noteq> Marked f"
      and other: "copy \<noteq> p"
  shows "res = copy \<and> get_object_age copy h' = region_age from_region + 1"
  using assms
  by (cases "obj_mark (objects h p)")
     (auto simp: evac_install_def evac_copy_def Let_def evacuation_defs log_event_def
        split: if_splits)

text \<open>
  C5: when \<^verbatim>\<open>try_evacuate_object\<close> with the young generation as target, in an aging
  cycle, on an object that is not forwarded, answers something else than the object
  itself, the answer is the copy, and the recorded age of the copy is the age of the
  source region plus one. The age is written by \<^verbatim>\<open>increase_object_age\<close>, modelled
  from the spec as stamping the age it is passed; the source passes
  \<^verbatim>\<open>from_region->age() + 1\<close>.
\<close>

theorem young_copy_age:
  assumes run: "try_evacuate_object c cfg p from_region YOUNG_GENERATION h = Inr (res, h')"
      and aging: "is_aging_cycle h"
      and unforwarded: "\<forall>f. obj_mark (objects h p) \<noteq> Marked f"
      and copied: "res \<noteq> p"
  shows "get_object_age res h' = region_age from_region + 1"
proof -
  let ?sz = "obj_size (objects h p)"
  obtain copy hp h1 where
    lab: "evac_lab_alloc c cfg ?sz YOUNG_GENERATION
            (YOUNG_GENERATION = OLD_GENERATION \<and> region_is_young from_region) h
          = Inr (copy, hp, h1)"
    using run by (auto simp: try_evacuate_object_def Let_def split: sum.splits)
  have f1: "objects h1 = objects h" "is_aging_cycle h1 = is_aging_cycle h"
    using lab evac_allocate_young_frame [of c cfg ?sz h]
    by (auto simp: evac_lab_alloc_def split: if_splits prod.splits)
  obtain copy1 afl h2 where
    sh: "evac_shared_alloc c cfg ?sz YOUNG_GENERATION
           (YOUNG_GENERATION = OLD_GENERATION \<and> region_is_young from_region) hp copy h1
         = (copy1, afl, h2)"
    by (metis surj_pair)
  have f2: "objects h2 = objects h" "is_aging_cycle h2 = is_aging_cycle h"
    using evac_shared_alloc_frame [of c cfg ?sz YOUNG_GENERATION
        "YOUNG_GENERATION = OLD_GENERATION \<and> region_is_young from_region" hp copy h1] sh f1
    by simp_all
  note u = try_evacuate_object_unfold [OF lab sh]
  have nz: "copy1 \<noteq> 0"
  proof
    assume z: "copy1 = 0"
    then have "res = resolve_forwarded p h2"
      using run u by (auto simp: evac_alloc_failed_def evac_out_of_memory_eq)
    then have "res = p"
      using unforwarded f2 by (cases "obj_mark (objects h p)") (auto simp: resolve_forwarded_def)
    then show False using copied by simp
  qed
  then have inst: "evac_install cfg p copy1 ?sz YOUNG_GENERATION from_region
           (YOUNG_GENERATION = OLD_GENERATION \<and> region_is_young from_region) afl h2
         = Inr (res, h')"
    using run u by simp
  have unf2: "\<forall>f. obj_mark (objects h2 p) \<noteq> Marked f" using unforwarded f2 by simp
  show ?thesis
  proof (cases "copy1 = p")
    case True
    have "res = p"
      using inst True unf2
      by (cases "obj_mark (objects h2 p)")
         (auto simp: evac_install_def evac_copy_def Let_def evacuation_defs log_event_def
            split: if_splits)
    then show ?thesis using copied by simp
  next
    case False
    from evac_install_young_age [OF inst _ unf2 False] aging f2 show ?thesis by simp
  qed
qed

text \<open>C5 for an object of age 1 copied from a region of age 2: the copy has age 3.\<close>

theorem young_copy_age_witness:
  "is_aging_cycle example_heap \<and>
   obj_mark (objects example_heap 4242) = Unlocked 1 \<and>
   region_age example_young_region = 2 \<and>
   result_value (try_evacuate_object granting_collab example_config 4242 example_young_region
      YOUNG_GENERATION example_heap) = Some 8200 \<and>
   map_option (get_object_age 8200)
     (result_state (try_evacuate_object granting_collab example_config 4242
        example_young_region YOUNG_GENERATION example_heap)) = Some 3"
proof -
  have a: "is_aging_cycle example_heap" "obj_mark (objects example_heap 4242) = Unlocked 1"
    "region_age example_young_region = 2"
    by (simp_all add: example_heap_def example_young_region_def)
  have unf: "\<forall>f. obj_mark (objects example_heap 4242) \<noteq> Marked f" using a(2) by simp
  have "\<exists>h'. try_evacuate_object granting_collab example_config 4242 example_young_region
          YOUNG_GENERATION example_heap = Inr (8200, h')"
    by (simp add: run_defs granting_collab_def)
  then obtain h' where run:
    "try_evacuate_object granting_collab example_config 4242 example_young_region
          YOUNG_GENERATION example_heap = Inr (8200, h')"
    by blast
  have other: "(8200 :: oop) \<noteq> 4242" by simp
  have "get_object_age 8200 h' = region_age example_young_region + 1"
    using young_copy_age [OF run a(1) unf other] .
  then have age: "get_object_age 8200 h' = 3" using a(3) by simp
  have v: "result_value (try_evacuate_object granting_collab example_config 4242
      example_young_region YOUNG_GENERATION example_heap) = Some 8200"
    by (simp add: run result_value_def)
  have s: "map_option (get_object_age 8200)
     (result_state (try_evacuate_object granting_collab example_config 4242
        example_young_region YOUNG_GENERATION example_heap)) = Some 3"
    by (simp add: run result_state_def age)
  show ?thesis using a v s by (intro conjI)
qed

subsection \<open>Evacuation: threads racing for one object\<close>

text \<open>
  The calls that allocate a copy leave every mark word alone, so the forwarding slot of \<open>p\<close>
  changes only in \<^const>\<open>try_update_forwardee\<close>.
\<close>

lemma retire_plab_objects [simp]:
  "objects (snd (retire_plab c b h)) = objects h"
  by (simp add: retire_plab_def Let_def thread_data_setters)

lemma allocate_new_plab_objects [simp]:
  "objects (snd (allocate_new_plab c m w h)) = objects h"
  by (simp add: allocate_new_plab_state)

lemma replace_plab_objects:
  assumes "replace_plab c cfg sz ip m w b h = Inr (obj, h')"
  shows "objects h' = objects h"
proof -
  obtain b1 h1 where r: "retire_plab c b h = (b1, h1)" by (cases "retire_plab c b h")
  obtain buf act h2 where a: "allocate_new_plab c m w (set_plab (Some b1) h1) = ((buf, act), h2)"
    by (metis surj_pair)
  have "objects h1 = objects h" using retire_plab_objects [of c b h] r by simp
  moreover have "objects h2 = objects (set_plab (Some b1) h1)"
    using allocate_new_plab_objects [of c m w "set_plab (Some b1) h1"] a by simp
  ultimately have h2: "objects h2 = objects h" by (simp add: set_plab_def)
  show ?thesis
    using assms h2 unfolding replace_plab_unfold [OF r a]
    by (auto simp: Let_def thread_data_setters split: if_splits option.splits prod.splits)
qed

lemma allocate_from_plab_slow_objects:
  assumes run: "allocate_from_plab_slow c cfg sz ip h = Inr (obj, h')"
  shows "objects h' = objects h"
proof -
  define cur where "cur = (if plab_size (tld h) = 0 then plab_min_size cfg else plab_size (tld h))"
  let ?hs = "set_plab_size (min (cur * 2) (plab_max_size cfg)) h"
  have hs: "objects ?hs = objects h" by (simp add: set_plab_size_def)
  note u = allocate_from_plab_slow_unfold [OF cur_def]
  show ?thesis
  proof (cases "cur < sz")
    case True
    then show ?thesis using run hs unfolding u by auto
  next
    case False
    show ?thesis
    proof (cases "plab (tld h)")
      case None
      then show ?thesis using run False unfolding u by simp
    next
      case (Some b)
      show ?thesis
      proof (cases "words_remaining b < plab_min_size cfg")
        case True
        then have "replace_plab c cfg sz ip
                     (if sz > plab_min_size cfg then align_up sz (card_size_in_words cfg)
                      else plab_min_size cfg) cur b ?hs = Inr (obj, h')"
          using run False Some unfolding u by simp
        from replace_plab_objects [OF this] show ?thesis using hs by simp
      next
        case F2: False
        then show ?thesis using run False Some hs unfolding u by auto
      qed
    qed
  qed
qed

lemma allocate_from_plab_objects:
  assumes run: "allocate_from_plab c cfg sz ip h = Inr (obj, h')"
  shows "objects h' = objects h"
proof (cases "plab (tld h)")
  case None
  then show ?thesis using run by (simp add: allocate_from_plab_def)
next
  case (Some b)
  show ?thesis
  proof (cases "ip \<and> \<not> allow_plab_promotions (tld h)")
    case True
    then show ?thesis using run Some by (simp add: allocate_from_plab_def)
  next
    case False
    obtain o1 b1 where pa: "plab_allocate sz b = (o1, b1)" by (cases "plab_allocate sz b")
    let ?h1 = "set_plab (Some b1) h"
    have h1: "objects ?h1 = objects h" by (simp add: set_plab_def)
    show ?thesis
    proof (cases "o1 = 0 \<and> words_remaining b1 < plab_min_size cfg")
      case True
      then obtain o2 h2 where s: "allocate_from_plab_slow c cfg sz ip ?h1 = Inr (o2, h2)"
        and h': "h' = h2 \<or> h' = add_to_plab_promoted (sz * HeapWordSize cfg) h2"
        using run Some False pa
        by (auto simp: allocate_from_plab_def split: sum.splits if_splits)
      from allocate_from_plab_slow_objects [OF s] h' h1 show ?thesis
        by (auto simp: add_to_plab_promoted_def)
    next
      case F: False
      then have "h' = ?h1 \<or> h' = add_to_plab_promoted (sz * HeapWordSize cfg) ?h1"
        using run Some False pa
        by (auto simp: allocate_from_plab_def split: sum.splits if_splits)
      then show ?thesis using h1 by (auto simp: add_to_plab_promoted_def)
    qed
  qed
qed

lemma evac_allocate_old_objects:
  assumes run: "evac_allocate_old c cfg sz ip h = Inr (copy, hp, h')"
  shows "objects h' = objects h"
proof -
  obtain c1 h1 where a1: "allocate_from_plab c cfg sz ip h = Inr (c1, h1)"
    using run by (auto simp: evac_allocate_old_def Let_def split: sum.splits)
  have o1: "objects h1 = objects h" using allocate_from_plab_objects [OF a1] .
  show ?thesis
  proof (cases "c1 = 0 \<and> sz < plab_size (tld h1) \<and> plab_retries_enabled (tld h1)")
    case False
    then have "h' = h1" using run a1 by (auto simp: evac_allocate_old_def Let_def)
    then show ?thesis using o1 by simp
  next
    case True
    then obtain b where b: "plab (tld h1) = Some b"
      using run a1 by (auto simp: evac_allocate_old_def Let_def split: option.splits)
    show ?thesis
    proof (cases "words_remaining b < plab_min_size cfg")
      case F: False
      then have "h' = h1" using run a1 True b by (auto simp: evac_allocate_old_def Let_def)
      then show ?thesis using o1 by simp
    next
      case T: True
      let ?h1 = "set_plab_size (plab_min_size cfg) h1"
      obtain c2 h2 where a2: "allocate_from_plab c cfg sz ip ?h1 = Inr (c2, h2)"
        and h': "h' = h2 \<or> h' = disable_plab_retries h2"
        using run a1 True b T
        by (auto simp: evac_allocate_old_def Let_def split: sum.splits if_splits)
      have "objects h2 = objects ?h1" using allocate_from_plab_objects [OF a2] .
      then show ?thesis using h' o1
        by (auto simp: set_plab_size_def disable_plab_retries_def)
    qed
  qed
qed

lemma evac_lab_alloc_objects:
  assumes run: "evac_lab_alloc c cfg sz g ip h = Inr (copy, hp, h')"
  shows "objects h' = objects h"
proof (cases "UseTLAB cfg")
  case False
  then show ?thesis using run by (simp add: evac_lab_alloc_def)
next
  case True
  show ?thesis
  proof (cases g)
    case FREE
    then show ?thesis using run True by (simp add: evac_lab_alloc_def)
  next
    case YOUNG_GENERATION
    then show ?thesis
      using run True evac_allocate_young_frame [of c cfg sz h]
      by (auto simp: evac_lab_alloc_def split: prod.splits)
  next
    case OLD_GENERATION
    then have "evac_allocate_old c cfg sz ip h = Inr (copy, hp, h')"
      using run True by (simp add: evac_lab_alloc_def)
    from evac_allocate_old_objects [OF this] show ?thesis .
  qed
qed

text \<open>
  The second half of \<^const>\<open>try_evacuate_object\<close>: the copy is prepared, one compare-and-swap
  is made on the forwarding slot, and the thread whose exchange fails takes its copy back.
\<close>

lemma evac_copy_mark_forwarded:
  "obj_mark (objects h p) = Marked w
   \<Longrightarrow> obj_mark (objects (evac_copy cfg p copy sz g r h) p) = Marked w"
  by (simp add: evac_copy_def Let_def evacuation_defs log_event_def)

lemma evac_copy_other:
  "copy \<noteq> p \<Longrightarrow> objects (evac_copy cfg p copy sz g r h) p = objects h p"
  by (simp add: evac_copy_def Let_def evacuation_defs log_event_def)

lemma try_update_forwardee_forwarded:
  "obj_mark (objects h p) = Marked w \<Longrightarrow> try_update_forwardee p u h = (w, h)"
  by (simp add: try_update_forwardee_def)

lemma try_update_forwardee_unforwarded:
  "\<forall>f. obj_mark (objects h p) \<noteq> Marked f
   \<Longrightarrow> fst (try_update_forwardee p u h) = u \<and>
       obj_mark (objects (snd (try_update_forwardee p u h)) p) = Marked u"
  by (cases "obj_mark (objects h p)") (simp_all add: try_update_forwardee_def)

lemma evac_lost_race_effect:
  assumes "evac_lost_race cfg copy sz g ip afl result h = Inr (res, h')"
  shows "res = result \<and> objects h' = objects h \<and>
         (afl \<and> g = YOUNG_GENERATION \<longrightarrow>
            (\<exists>b. gclab (tld h) = Some b \<and> gclab (tld h') = Some (undo_allocation copy sz b))) \<and>
         (afl \<and> g = OLD_GENERATION \<longrightarrow>
            (\<exists>b. plab (tld h) = Some b \<and> plab (tld h') = Some (undo_allocation copy sz b)) \<and>
            plab_promoted (tld h') =
              (if ip then plab_promoted (tld h) - sz * HeapWordSize cfg
               else plab_promoted (tld h))) \<and>
         (\<not> afl \<longrightarrow> events h' = events h @ [Fill_With_Object copy sz])"
proof (cases afl)
  case False
  then show ?thesis using assms by (auto simp: evac_lost_race_def)
next
  case True
  show ?thesis
  proof (cases g)
    case FREE
    then show ?thesis using assms True by (simp add: evac_lost_race_def)
  next
    case YOUNG_GENERATION
    then show ?thesis using assms True
      by (auto simp: evac_lost_race_def set_gclab_def split: option.splits)
  next
    case OLD_GENERATION
    then show ?thesis using assms True
      by (auto simp: evac_lost_race_def Let_def set_plab_def subtract_from_plab_promoted_def
          split: option.splits if_splits)
  qed
qed

lemma evac_install_after_cas:
  assumes "try_update_forwardee p copy (evac_copy cfg p copy sz g r h) = (result, h5)"
  shows "evac_install cfg p copy sz g r ip afl h =
           (if result = copy then
              (if g = OLD_GENERATION
               then Inr (copy, log_event (Handle_Evacuation copy sz (region_is_young r))
                                 (log_event (End_Evacuation (sz * HeapWordSize cfg)) h5))
               else if ShenandoahGenerationalCensusAtEvac cfg
                       \<or> \<not> ShenandoahGenerationalAdaptiveTenuring cfg
               then Inr (copy, log_event (Record_Age (sz * HeapWordSize cfg)
                                   (get_object_age copy
                                      (log_event (End_Evacuation (sz * HeapWordSize cfg)) h5)))
                                 (log_event (End_Evacuation (sz * HeapWordSize cfg)) h5))
               else Inr (copy, log_event (End_Evacuation (sz * HeapWordSize cfg)) h5))
            else evac_lost_race cfg copy sz g ip afl result h5)"
  by (simp add: evac_install_def Let_def assms)

lemma evac_install_winner_objects:
  assumes cas: "try_update_forwardee p copy (evac_copy cfg p copy sz g r h) = (copy, h5)"
      and run: "evac_install cfg p copy sz g r ip afl h = Inr (res, h')"
  shows "res = copy \<and> objects h' = objects h5"
  using run unfolding evac_install_after_cas [OF cas]
  by (auto split: if_splits)

lemma evac_install_forwarded:
  assumes fw: "obj_mark (objects h p) = Marked w"
      and run: "evac_install cfg p copy sz g r ip afl h = Inr (res, h')"
  shows "res = w \<and> obj_mark (objects h' p) = Marked w"
proof -
  let ?h4 = "evac_copy cfg p copy sz g r h"
  have m4: "obj_mark (objects ?h4 p) = Marked w" using fw by (rule evac_copy_mark_forwarded)
  have cas: "try_update_forwardee p copy ?h4 = (w, ?h4)"
    using m4 by (rule try_update_forwardee_forwarded)
  show ?thesis
  proof (cases "w = copy")
    case True
    have cas': "try_update_forwardee p copy ?h4 = (copy, ?h4)" using cas True by simp
    from evac_install_winner_objects [OF cas' run]
    show ?thesis using m4 True by simp
  next
    case False
    then have "evac_lost_race cfg copy sz g ip afl w ?h4 = Inr (res, h')"
      using run unfolding evac_install_after_cas [OF cas] by simp
    from evac_lost_race_effect [OF this] show ?thesis using m4 by simp
  qed
qed

lemma evac_install_unforwarded:
  assumes unf: "\<forall>f. obj_mark (objects h p) \<noteq> Marked f" and other: "copy \<noteq> p"
      and run: "evac_install cfg p copy sz g r ip afl h = Inr (res, h')"
  shows "res = copy \<and> obj_mark (objects h' p) = Marked copy"
proof -
  let ?h4 = "evac_copy cfg p copy sz g r h"
  have "objects ?h4 p = objects h p" using other by (rule evac_copy_other)
  then have unf4: "\<forall>f. obj_mark (objects ?h4 p) \<noteq> Marked f" using unf by simp
  obtain h5 where cas: "try_update_forwardee p copy ?h4 = (copy, h5)"
    and m5: "obj_mark (objects h5 p) = Marked copy"
    using try_update_forwardee_unforwarded [OF unf4, of copy]
    by (cases "try_update_forwardee p copy ?h4") auto
  from evac_install_winner_objects [OF cas run] show ?thesis using m5 by simp
qed

lemma evac_install_loser:
  assumes run: "evac_install cfg p copy sz g r ip afl s = Inr (res, s')"
      and lost: "res \<noteq> copy"
  shows "obj_mark (objects s p) = Marked res \<and>
         (afl \<and> g = YOUNG_GENERATION \<longrightarrow>
            (\<exists>b. gclab (tld s) = Some b \<and> gclab (tld s') = Some (undo_allocation copy sz b))) \<and>
         (afl \<and> g = OLD_GENERATION \<longrightarrow>
            (\<exists>b. plab (tld s) = Some b \<and> plab (tld s') = Some (undo_allocation copy sz b)) \<and>
            plab_promoted (tld s') =
              (if ip then plab_promoted (tld s) - sz * HeapWordSize cfg
               else plab_promoted (tld s))) \<and>
         (\<not> afl \<longrightarrow>
            new_events s s' = [Begin_Evacuation (sz * HeapWordSize cfg),
                               Relativize_Stack_Chunk copy, Fill_With_Object copy sz])"
proof -
  let ?h4 = "evac_copy cfg p copy sz g r s"
  obtain result h5 where cas: "try_update_forwardee p copy ?h4 = (result, h5)"
    by (cases "try_update_forwardee p copy ?h4")
  have ne: "result \<noteq> copy"
  proof
    assume "result = copy"
    then have "res = copy" using evac_install_winner_objects [OF _ run] cas by simp
    then show False using lost by simp
  qed
  then have lr: "evac_lost_race cfg copy sz g ip afl result h5 = Inr (res, s')"
    using run unfolding evac_install_after_cas [OF cas] by simp
  note eff = evac_lost_race_effect [OF lr]
  have t5: "tld h5 = tld s" "events h5 = events s @ [Begin_Evacuation (sz * HeapWordSize cfg),
                                    Relativize_Stack_Chunk copy]"
    using try_update_forwardee_simps [of p copy ?h4] cas by simp_all
  have fw: "obj_mark (objects s p) = Marked res"
  proof (cases "obj_mark (objects s p)")
    case (Marked w)
    from try_update_forwardee_forwarded [OF evac_copy_mark_forwarded [OF Marked]] cas
    have "result = w" by simp
    then show ?thesis using Marked eff by simp
  next
    case (Displaced a)
    then have unf: "\<forall>f. obj_mark (objects s p) \<noteq> Marked f" by simp
    show ?thesis
    proof (cases "copy = p")
      case True
      have "fst (try_update_forwardee p copy ?h4) = copy"
        using Displaced True
        by (simp add: try_update_forwardee_def evac_copy_def Let_def evacuation_defs
            log_event_def)
      then show ?thesis using cas ne by simp
    next
      case False
      from evac_install_unforwarded [OF unf False run] lost show ?thesis by simp
    qed
  next
    case (Unlocked a)
    then have unf: "\<forall>f. obj_mark (objects s p) \<noteq> Marked f" by simp
    show ?thesis
    proof (cases "copy = p")
      case True
      have "fst (try_update_forwardee p copy ?h4) = copy"
        using Unlocked True
        by (simp add: try_update_forwardee_def evac_copy_def Let_def evacuation_defs
            log_event_def)
      then show ?thesis using cas ne by simp
    next
      case False
      from evac_install_unforwarded [OF unf False run] lost show ?thesis by simp
    qed
  qed
  have ev: "\<not> afl \<longrightarrow> new_events s s' = [Begin_Evacuation (sz * HeapWordSize cfg),
                               Relativize_Stack_Chunk copy, Fill_With_Object copy sz]"
    using eff t5(2) by (simp add: new_events_def)
  show ?thesis using fw eff ev unfolding t5(1) by blast
qed

text \<open>
  A thread that finds the object forwarded answers the forwardee, or null when it could
  not allocate, and leaves the slot as it was.
\<close>

lemma try_update_forwardee_self:
  "\<forall>f. obj_mark (objects s p) \<noteq> Marked f
   \<Longrightarrow> fst (try_update_forwardee p p (evac_copy cfg p p sz g r s)) = p"
  by (cases "obj_mark (objects s p)")
     (simp_all add: try_update_forwardee_def evac_copy_def Let_def evacuation_defs log_event_def)

lemma evac_alloc_failed_result:
  "objects (snd (evac_alloc_failed p sz g r h)) = objects h \<and>
   (fst (evac_alloc_failed p sz g r h) = 0 \<or>
    fst (evac_alloc_failed p sz g r h) = resolve_forwarded p h)"
  by (simp add: evac_alloc_failed_def evac_out_of_memory_eq resolve_forwarded_def)

lemma try_evacuate_object_segments:
  assumes "try_evacuate_object c cfg p r g h = Inr (res, h')"
  obtains copy1 afl h2 where
    "objects h2 = objects h"
    "try_evacuate_object c cfg p r g h =
       (if copy1 = 0 then Inr (evac_alloc_failed p (obj_size (objects h p)) g r h2)
        else evac_install cfg p copy1 (obj_size (objects h p)) g r
               (g = OLD_GENERATION \<and> region_is_young r) afl h2)"
proof -
  let ?sz = "obj_size (objects h p)"
  let ?ip = "g = OLD_GENERATION \<and> region_is_young r"
  obtain copy hp h1 where lab: "evac_lab_alloc c cfg ?sz g ?ip h = Inr (copy, hp, h1)"
    using assms by (auto simp: try_evacuate_object_def Let_def split: sum.splits)
  obtain copy1 afl h2 where sh: "evac_shared_alloc c cfg ?sz g ?ip hp copy h1 = (copy1, afl, h2)"
    by (metis surj_pair)
  have "objects h1 = objects h" using evac_lab_alloc_objects [OF lab] .
  moreover have "objects h2 = objects h1"
    using evac_shared_alloc_frame [of c cfg ?sz g ?ip hp copy h1] sh by simp
  ultimately have "objects h2 = objects h" by simp
  then show ?thesis using that try_evacuate_object_unfold [OF lab sh] by blast
qed

lemma try_evacuate_object_forwarded:
  assumes fw: "obj_mark (objects h p) = Marked w"
      and run: "try_evacuate_object c cfg p r g h = Inr (res, h')"
  shows "obj_mark (objects h' p) = Marked w \<and> (res = w \<or> res = 0)"
proof -
  from try_evacuate_object_segments [OF run] obtain copy1 afl h2 where
    o2: "objects h2 = objects h" and
    u: "try_evacuate_object c cfg p r g h =
       (if copy1 = 0 then Inr (evac_alloc_failed p (obj_size (objects h p)) g r h2)
        else evac_install cfg p copy1 (obj_size (objects h p)) g r
               (g = OLD_GENERATION \<and> region_is_young r) afl h2)"
    by blast
  have fw2: "obj_mark (objects h2 p) = Marked w" using fw o2 by simp
  show ?thesis
  proof (cases "copy1 = 0")
    case True
    let ?f = "evac_alloc_failed p (obj_size (objects h p)) g r h2"
    have "Inr (res, h') = (Inr ?f :: fault + oop \<times> heap)" using run u True by simp
    then have rf: "res = fst ?f" "h' = snd ?f" by (simp_all add: prod_eq_iff)
    have "resolve_forwarded p h2 = w" using fw2 by (simp add: resolve_forwarded_def)
    then show ?thesis
      using evac_alloc_failed_result [of p "obj_size (objects h p)" g r h2] fw2 rf by auto
  next
    case False
    then have "evac_install cfg p copy1 (obj_size (objects h p)) g r
               (g = OLD_GENERATION \<and> region_is_young r) afl h2 = Inr (res, h')"
      using run u by simp
    from evac_install_forwarded [OF fw2 this] show ?thesis by simp
  qed
qed

lemma try_evacuate_object_wins:
  assumes unf: "\<forall>f. obj_mark (objects h p) \<noteq> Marked f"
      and run: "try_evacuate_object c cfg p r g h = Inr (res, h')"
      and copied: "res \<noteq> p" "res \<noteq> 0"
  shows "obj_mark (objects h' p) = Marked res"
proof -
  from try_evacuate_object_segments [OF run] obtain copy1 afl h2 where
    o2: "objects h2 = objects h" and
    u: "try_evacuate_object c cfg p r g h =
       (if copy1 = 0 then Inr (evac_alloc_failed p (obj_size (objects h p)) g r h2)
        else evac_install cfg p copy1 (obj_size (objects h p)) g r
               (g = OLD_GENERATION \<and> region_is_young r) afl h2)"
    by blast
  have unf2: "\<forall>f. obj_mark (objects h2 p) \<noteq> Marked f" using unf o2 by simp
  have rp: "resolve_forwarded p h2 = p"
    using unf2 by (cases "obj_mark (objects h2 p)") (auto simp: resolve_forwarded_def)
  have nz: "copy1 \<noteq> 0"
  proof
    assume z: "copy1 = 0"
    let ?f = "evac_alloc_failed p (obj_size (objects h p)) g r h2"
    have "Inr (res, h') = (Inr ?f :: fault + oop \<times> heap)" using run u z by simp
    then have "res = fst ?f" by (simp add: prod_eq_iff)
    then show False
      using evac_alloc_failed_result [of p "obj_size (objects h p)" g r h2] rp copied by auto
  qed
  then have inst: "evac_install cfg p copy1 (obj_size (objects h p)) g r
               (g = OLD_GENERATION \<and> region_is_young r) afl h2 = Inr (res, h')"
    using run u by simp
  show ?thesis
  proof (cases "copy1 = p")
    case True
    let ?h4 = "evac_copy cfg p p (obj_size (objects h p)) g r h2"
    have "fst (try_update_forwardee p p ?h4) = p"
      using unf2 by (rule try_update_forwardee_self)
    then have "try_update_forwardee p p ?h4 = (p, snd (try_update_forwardee p p ?h4))"
      by (simp add: prod_eq_iff)
    from evac_install_winner_objects [OF this inst [unfolded True]]
    have "res = p" by simp
    then show ?thesis using copied by simp
  next
    case False
    from evac_install_unforwarded [OF unf2 False inst] show ?thesis by simp
  qed
qed

lemma evacuate_by_threads_forwarded:
  "obj_mark (objects h p) = Marked w \<Longrightarrow> evacuate_by_threads c cfg p r g ts h = Inr (rs, h')
   \<Longrightarrow> obj_mark (objects h' p) = Marked w \<and> length rs = length ts \<and>
       (\<forall>x \<in> set rs. fst x = w \<or> fst x = 0)"
proof (induction ts arbitrary: h rs)
  case Nil
  then show ?case by simp
next
  case (Cons t ts)
  from Cons.prems(2) obtain res h1 rest where
    first: "try_evacuate_object c cfg p r g (h\<lparr>tld := t\<rparr>) = Inr (res, h1)" and
    later: "evacuate_by_threads c cfg p r g ts h1 = Inr (rest, h')" and
    rs: "rs = (res, tld h1) # rest"
    by (auto split: sum.splits)
  have "obj_mark (objects (h\<lparr>tld := t\<rparr>) p) = Marked w" using Cons.prems(1) by simp
  from try_evacuate_object_forwarded [OF this first]
  have f1: "obj_mark (objects h1 p) = Marked w" "res = w \<or> res = 0" by simp_all
  from Cons.IH [OF f1(1) later] show ?case using f1(2) rs by auto
qed

text \<open>
  C2: when several threads evacuate the same object \<open>p\<close>, one copy becomes the forwardee and
  the other copies are taken back. The threads' calls are taken in the order of their
  compare-and-swaps on the forwarding slot of \<open>p\<close>, each call running as a whole
  (\<^const>\<open>evacuate_by_threads\<close>); the slot is written by \<^const>\<open>try_update_forwardee\<close> only,
  which exchanges it in one step. Let the first thread \<open>t\<close> find \<open>p\<close> not forwarded and
  return a copy \<open>w\<close> of its own (neither \<open>p\<close> nor null). Then the slot of \<open>p\<close> holds \<open>w\<close>
  after that call and still holds \<open>w\<close> after every other thread of \<open>ts\<close> has made its call,
  and each of those threads returns \<open>w\<close>, or null when its copy could not be allocated.
  Moreover, in any state, a thread that reaches the exchange with a copy \<open>copy\<close> and gets
  another answer \<open>res\<close> lost it: \<open>res\<close> is the forwardee that was already in the slot; a copy
  from the thread's \<open>gclab\<close> (young target) or \<open>plab\<close> (old target) is given back to that
  buffer by \<^const>\<open>undo_allocation\<close>, for a promotion the thread's promoted bytes are
  decreased by the size of the copy in bytes, and a copy from the shared allocator is
  overwritten by a filler object.
\<close>

theorem single_canonical_copy:
  assumes first: "try_evacuate_object c cfg p r g (h\<lparr>tld := t\<rparr>) = Inr (w, h1)"
      and unforwarded: "\<forall>f. obj_mark (objects h p) \<noteq> Marked f"
      and copied: "w \<noteq> p" "w \<noteq> 0"
      and others: "evacuate_by_threads c cfg p r g ts h1 = Inr (rs, h')"
  shows "obj_mark (objects h1 p) = Marked w \<and>
         obj_mark (objects h' p) = Marked w \<and>
         length rs = length ts \<and>
         (\<forall>x \<in> set rs. fst x = w \<or> fst x = 0) \<and>
         (\<forall>copy sz ip afl s res s'.
            evac_install cfg p copy sz g r ip afl s = Inr (res, s') \<and> res \<noteq> copy \<longrightarrow>
            obj_mark (objects s p) = Marked res \<and>
            (afl \<and> g = YOUNG_GENERATION \<longrightarrow>
               (\<exists>b. gclab (tld s) = Some b \<and>
                    gclab (tld s') = Some (undo_allocation copy sz b))) \<and>
            (afl \<and> g = OLD_GENERATION \<longrightarrow>
               (\<exists>b. plab (tld s) = Some b \<and>
                    plab (tld s') = Some (undo_allocation copy sz b)) \<and>
               plab_promoted (tld s') =
                 (if ip then plab_promoted (tld s) - sz * HeapWordSize cfg
                  else plab_promoted (tld s))) \<and>
            (\<not> afl \<longrightarrow>
               new_events s s' = [Begin_Evacuation (sz * HeapWordSize cfg),
                                  Relativize_Stack_Chunk copy, Fill_With_Object copy sz]))"
proof -
  have unf: "\<forall>f. obj_mark (objects (h\<lparr>tld := t\<rparr>) p) \<noteq> Marked f"
    using unforwarded by simp
  have won: "obj_mark (objects h1 p) = Marked w"
    using try_evacuate_object_wins [OF unf first copied] .
  note rest = evacuate_by_threads_forwarded [OF won others]
  show ?thesis using won rest evac_install_loser by blast
qed

text \<open>
  C2 for three threads and an object of 16 words: the first thread installs its copy at
  8200; a second thread copies to 12288 in its own buffer, loses, and has the 16 words
  back; a third thread without a buffer copies to 32768 in shared memory, loses, and fills
  that copy; both answer 8200. A thread that finds 7777 installed gives its copy at 8200
  back to its buffer.
\<close>

theorem single_canonical_copy_witness:
  "obj_mark (objects example_heap 4242) = Unlocked 1 \<and>
   (\<exists>h1 rs h'.
      try_evacuate_object granting_collab example_config 4242 example_young_region
        YOUNG_GENERATION (example_heap\<lparr>tld := example_thread_data\<rparr>) = Inr (8200, h1) \<and>
      evacuate_by_threads granting_collab example_config 4242 example_young_region
        YOUNG_GENERATION [second_thread_data, example_thread_data\<lparr>gclab := None\<rparr>] h1
        = Inr (rs, h') \<and>
      map fst rs = [8200, 8200] \<and>
      map (\<lambda>x. gclab (snd x)) rs = [gclab second_thread_data, None] \<and>
      obj_mark (objects h1 4242) = Marked 8200 \<and>
      obj_mark (objects h' 4242) = Marked 8200 \<and>
      new_events h1 h' =
        [Allocate_From_Gclab 16, Begin_Evacuation 128, Relativize_Stack_Chunk 12288,
         Allocate_From_Gclab 16, Allocate_From_Gclab 16,
         Allocate_Memory (For_Shared_GC 16 YOUNG_GENERATION False),
         Begin_Evacuation 128, Relativize_Stack_Chunk 32768, Fill_With_Object 32768 16]) \<and>
   (\<exists>s'. evac_install example_config 4242 8200 16 YOUNG_GENERATION example_young_region
           False True forwarded_heap = Inr (7777, s') \<and>
         gclab (tld s') = Some (undo_allocation 8200 16 example_gclab))"
proof -
  let ?first = "try_evacuate_object granting_collab example_config 4242 example_young_region
      YOUNG_GENERATION (example_heap\<lparr>tld := example_thread_data\<rparr>)"
  let ?ts = "[second_thread_data, example_thread_data\<lparr>gclab := None\<rparr>]"
  let ?es = "[Allocate_From_Gclab 16, Begin_Evacuation 128, Relativize_Stack_Chunk 12288,
             Allocate_From_Gclab 16, Allocate_From_Gclab 16,
             Allocate_Memory (For_Shared_GC 16 YOUNG_GENERATION False),
             Begin_Evacuation 128, Relativize_Stack_Chunk 32768, Fill_With_Object 32768 16]"
  have unf: "\<forall>f. obj_mark (objects example_heap 4242) \<noteq> Marked f"
    and mark: "obj_mark (objects example_heap 4242) = Unlocked 1"
    by (simp_all add: example_heap_def)
  have ne: "(8200 :: oop) \<noteq> 4242" "(8200 :: oop) \<noteq> 0" by simp_all
  have "\<exists>h1 rs h'. ?first = Inr (8200, h1) \<and>
          evacuate_by_threads granting_collab example_config 4242 example_young_region
            YOUNG_GENERATION ?ts h1 = Inr (rs, h') \<and>
          map fst rs = [8200, 8200] \<and>
          map (\<lambda>x. gclab (snd x)) rs = [gclab second_thread_data, None] \<and>
          new_events h1 h' = ?es"
    by (simp add: run_defs granting_collab_def second_thread_data_def new_events_def)
  then obtain h1 rs h' where
    first: "?first = Inr (8200, h1)" and
    others: "evacuate_by_threads granting_collab example_config 4242 example_young_region
            YOUNG_GENERATION ?ts h1 = Inr (rs, h')" and
    vals: "map fst rs = [8200, 8200]" and
    labs: "map (\<lambda>x. gclab (snd x)) rs = [gclab second_thread_data, None]" and
    evs: "new_events h1 h' = ?es"
    by (elim exE conjE)
  note t = single_canonical_copy [OF first unf ne others]
  have installed: "obj_mark (objects h1 4242) = Marked 8200"
    and kept: "obj_mark (objects h' 4242) = Marked 8200" using t by blast+
  have run: "\<exists>h1 rs h'. ?first = Inr (8200, h1) \<and>
      evacuate_by_threads granting_collab example_config 4242 example_young_region
        YOUNG_GENERATION ?ts h1 = Inr (rs, h') \<and>
      map fst rs = [8200, 8200] \<and>
      map (\<lambda>x. gclab (snd x)) rs = [gclab second_thread_data, None] \<and>
      obj_mark (objects h1 4242) = Marked 8200 \<and>
      obj_mark (objects h' 4242) = Marked 8200 \<and>
      new_events h1 h' = ?es"
  proof (intro exI conjI)
    show "?first = Inr (8200, h1)" by (rule first)
    show "evacuate_by_threads granting_collab example_config 4242 example_young_region
        YOUNG_GENERATION ?ts h1 = Inr (rs, h')" by (rule others)
    show "map fst rs = [8200, 8200]" by (rule vals)
    show "map (\<lambda>x. gclab (snd x)) rs = [gclab second_thread_data, None]" by (rule labs)
    show "obj_mark (objects h1 4242) = Marked 8200" by (rule installed)
    show "obj_mark (objects h' 4242) = Marked 8200" by (rule kept)
    show "new_events h1 h' = ?es" by (rule evs)
  qed
  have "\<exists>s'. evac_install example_config 4242 8200 16 YOUNG_GENERATION example_young_region
           False True forwarded_heap = Inr (7777, s')"
    by (simp add: run_defs forwarded_heap_def)
  then obtain s' where lose: "evac_install example_config 4242 8200 16 YOUNG_GENERATION
      example_young_region False True forwarded_heap = Inr (7777, s')" by blast
  have lab: "gclab (tld forwarded_heap) = Some example_gclab"
    by (simp add: forwarded_heap_def example_defs)
  have "\<exists>b. gclab (tld forwarded_heap) = Some b \<and>
            gclab (tld s') = Some (undo_allocation 8200 16 b)"
  proof -
    have ne2: "(7777 :: oop) \<noteq> 8200" by simp
    note u = t [THEN conjunct2, THEN conjunct2, THEN conjunct2, THEN conjunct2, rule_format,
        OF conjI, OF lose ne2]
    show ?thesis using u by simp
  qed
  then have "gclab (tld s') = Some (undo_allocation 8200 16 example_gclab)"
    using lab by auto
  then have loser: "\<exists>s'. evac_install example_config 4242 8200 16 YOUNG_GENERATION
      example_young_region False True forwarded_heap = Inr (7777, s') \<and>
      gclab (tld s') = Some (undo_allocation 8200 16 example_gclab)"
    using lose by blast
  show ?thesis using mark run loser by (intro conjI)
qed

end
